theory Spec2Isabelle
  imports Complex_Main
begin

section \<open>JavaScript values and string helpers\<close>

text \<open>
  The chat routes of the service (\<^verbatim>\<open>routes/chatRoutes\<close>) and the cache helpers
  (\<^verbatim>\<open>utils/cache\<close>) are embedded as HOL functions. Strings are lists of bytes, the
  UTF-8 encoding of the text; JSON values are a datatype, every thrown error is a
  value and every piece of mutable state (the rate-limit map, the Redis keyspace, the
  chat collection, the HTTP response) is passed explicitly.
\<close>

type_synonym user_id = string

text \<open>JSON values. A number is a rational: every finite double is one.\<close>

datatype json =
    JNull
  | JBool bool
  | JNum rat
  | JStr string
  | JArr "json list"
  | JObj "(string \<times> json) list"

text \<open>Decimal rendering of numbers, as a template literal does it.\<close>

definition digit_char :: "nat \<Rightarrow> char" where
  "digit_char d = ''0123456789'' ! d"

fun show_nat :: "nat \<Rightarrow> string" where
  "show_nat n = (if n < 10 then [digit_char n] else show_nat (n div 10) @ [digit_char (n mod 10)])"

declare show_nat.simps [simp del]

definition show_int :: "int \<Rightarrow> string" where
  "show_int i = (if i < 0 then CHR ''-'' # show_nat (nat (- i)) else show_nat (nat i))"

text \<open>\<^verbatim>\<open>Array.prototype.join\<close>.\<close>

fun join :: "string \<Rightarrow> string list \<Rightarrow> string" where
  "join sep [] = []"
| "join sep [x] = x"
| "join sep (x # y # ys) = x @ sep @ join sep (y # ys)"

text \<open>\<^verbatim>\<open>String.prototype.split("\n")\<close>, \<^verbatim>\<open>startsWith\<close> and truthiness of a value.\<close>

fun split_nl :: "string \<Rightarrow> string list" where
  "split_nl [] = [[]]"
| "split_nl (c # cs) =
     (if c = CHR 0x0A then [] # split_nl cs
      else (case split_nl cs of [] \<Rightarrow> [[c]] | l # ls \<Rightarrow> (c # l) # ls))"

definition startsWith :: "string \<Rightarrow> string \<Rightarrow> bool" where
  "startsWith s p = (take (length p) s = p)"

fun truthy :: "json \<Rightarrow> bool" where
  "truthy JNull = False"
| "truthy (JBool b) = b"
| "truthy (JNum n) = (n \<noteq> 0)"
| "truthy (JStr s) = (s \<noteq> [])"
| "truthy (JArr xs) = True"
| "truthy (JObj fs) = True"

text \<open>
  The string a value becomes when it is appended to a string with \<^verbatim>\<open>+=\<close>: a string
  is itself, an array is its elements joined by commas (\<^verbatim>\<open>null\<close> elements empty),
  an object is \<^verbatim>\<open>[object Object]\<close>. An integer below \<open>10\<^sup>2\<^sup>1\<close> in absolute value
  is written in decimal digits; the text of any other number (a fraction, an exponent
  form) is left to the runtime, the parameter \<open>num\<close>.
\<close>

definition number_text :: "(rat \<Rightarrow> string) \<Rightarrow> rat \<Rightarrow> string" where
  "number_text num r =
     (if r = of_int \<lfloor>r\<rfloor> \<and> \<bar>r\<bar> < 10 ^ 21 then show_int \<lfloor>r\<rfloor> else num r)"

fun ToString :: "(rat \<Rightarrow> string) \<Rightarrow> json \<Rightarrow> string"
  and ToString_elems :: "(rat \<Rightarrow> string) \<Rightarrow> json list \<Rightarrow> string list" where
  "ToString num JNull = ''null''"
| "ToString num (JBool b) = (if b then ''true'' else ''false'')"
| "ToString num (JNum r) = number_text num r"
| "ToString num (JStr s) = s"
| "ToString num (JArr xs) = join '','' (ToString_elems num xs)"
| "ToString num (JObj fs) = ''[object Object]''"
| "ToString_elems num [] = []"
| "ToString_elems num (x # xs) = (if x = JNull then [] else ToString num x) # ToString_elems num xs"

text \<open>\<^verbatim>\<open>Math.ceil(x / k)\<close> on integers, for a positive divisor.\<close>

definition ceil_div :: "int \<Rightarrow> int \<Rightarrow> int" where
  "ceil_div x k = - ((- x) div k)"

text \<open>An HTTP reply sent with \<^verbatim>\<open>res.status(s).json(b)\<close>.\<close>

record http_response =
  status :: nat
  body :: json

section \<open>Rate governor\<close>

text \<open>
  \<^verbatim>\<open>RATE_LIMIT_WINDOW = parseInt(process.env.RATE_LIMIT_WINDOW_MS) || 900000\<close> and
  \<^verbatim>\<open>MAX_REQUESTS = parseInt(process.env.RATE_LIMIT_MAX_REQUESTS) || 100\<close>:
  an unset or unparsable variable (\<open>None\<close>) and the value 0 fall back to the default.
\<close>

definition env_or :: "int option \<Rightarrow> int \<Rightarrow> int" where
  "env_or v d = (case v of None \<Rightarrow> d | Some n \<Rightarrow> if n = 0 then d else n)"

record config =
  RATE_LIMIT_WINDOW :: int
  MAX_REQUESTS :: int

definition config_of_env :: "int option \<Rightarrow> int option \<Rightarrow> config" where
  "config_of_env window_ms max_requests =
     \<lparr> RATE_LIMIT_WINDOW = env_or window_ms 900000, MAX_REQUESTS = env_or max_requests 100 \<rparr>"

definition default_config :: config where
  "default_config = config_of_env None None"

text \<open>The module-level \<^verbatim>\<open>rateLimitCache\<close>: a map from user id to \<^verbatim>\<open>{count, timestamp}\<close>.\<close>

record rate_entry =
  count :: int
  timestamp :: int

type_synonym rate_cache = "user_id \<rightharpoonup> rate_entry"

text \<open>The clean-up loop: every entry with \<^verbatim>\<open>now - value.timestamp > RATE_LIMIT_WINDOW\<close> is deleted.\<close>

definition purge :: "config \<Rightarrow> int \<Rightarrow> rate_cache \<Rightarrow> rate_cache" where
  "purge cfg now m =
     (\<lambda>k. case m k of
            None \<Rightarrow> None
          | Some v \<Rightarrow> if now - timestamp v > RATE_LIMIT_WINDOW cfg then None else Some v)"

definition retry_after :: "config \<Rightarrow> int \<Rightarrow> rate_entry \<Rightarrow> int" where
  "retry_after cfg now userLimit =
     ceil_div (RATE_LIMIT_WINDOW cfg - (now - timestamp userLimit)) 1000"

definition rate_limit_body :: "int \<Rightarrow> json" where
  "rate_limit_body secs =
     JObj [(''error'', JStr ''Rate limit exceeded''),
           (''message'', JStr (''Please wait '' @ show_int secs @ '' seconds before trying again''))]"

text \<open>
  The middleware \<^verbatim>\<open>rateLimit\<close>. The result is the updated map and either a reply
  (\<open>Some\<close>, the request stops here) or \<open>None\<close> (\<^verbatim>\<open>next()\<close> is called).
\<close>

definition rateLimit :: "config \<Rightarrow> int \<Rightarrow> user_id \<Rightarrow> rate_cache \<Rightarrow> rate_cache \<times> http_response option" where
  "rateLimit cfg now userId m =
     (let m1 = purge cfg now m in
      case m1 userId of
        Some userLimit \<Rightarrow>
          if count userLimit \<ge> MAX_REQUESTS cfg
          then (m1, Some \<lparr> status = 429, body = rate_limit_body (retry_after cfg now userLimit) \<rparr>)
          else (m1(userId \<mapsto> userLimit\<lparr> count := count userLimit + 1 \<rparr>), None)
      | None \<Rightarrow> (m1(userId \<mapsto> \<lparr> count = 1, timestamp = now \<rparr>), None))"

text \<open>A run of admission checks, in arrival order: each request is a time and a user.\<close>

fun admissions :: "config \<Rightarrow> rate_cache \<Rightarrow> (int \<times> user_id) list \<Rightarrow> rate_cache \<times> http_response option list" where
  "admissions cfg m [] = (m, [])"
| "admissions cfg m (r # rs) =
     (let a = rateLimit cfg (fst r) (snd r) m;
          rest = admissions cfg (fst a) rs
      in (fst rest, snd a # snd rest))"

section \<open>Cache helpers\<close>

text \<open>
  The Redis keyspace behind \<^verbatim>\<open>utils/cache\<close>: each key holds a value and the expiry in
  seconds it was stored with (\<^verbatim>\<open>EX\<close>). The commands \<^verbatim>\<open>GET\<close>, \<^verbatim>\<open>SET\<close> and
  \<^verbatim>\<open>DEL\<close> address one key, named literally. Values are stored with
  \<^verbatim>\<open>JSON.stringify\<close> and read back with \<^verbatim>\<open>JSON.parse\<close>; the model keeps the JSON
  value. The passage of time is not modelled, so an entry stays until it is deleted.
\<close>

record redis_entry =
  stored :: json
  expiry :: nat

type_synonym keyspace = "string \<rightharpoonup> redis_entry"

text \<open>
  Each helper catches the client's error and logs it: with the client failing
  (\<open>down\<close>), \<^verbatim>\<open>getCache\<close> returns \<^verbatim>\<open>null\<close> and the other two do nothing.
\<close>

definition getCache :: "bool \<Rightarrow> keyspace \<Rightarrow> string \<Rightarrow> json option" where
  "getCache down ks key =
     (if down then None
      else case ks key of None \<Rightarrow> None | Some e \<Rightarrow> Some (stored e))"

definition setCache :: "bool \<Rightarrow> keyspace \<Rightarrow> string \<Rightarrow> json \<Rightarrow> nat option \<Rightarrow> keyspace" where
  "setCache down ks key v expireTime =
     (if down then ks
      else ks(key \<mapsto> \<lparr> stored = v, expiry = (case expireTime of None \<Rightarrow> 3600 | Some t \<Rightarrow> t) \<rparr>))"

definition deleteCache :: "bool \<Rightarrow> keyspace \<Rightarrow> string \<Rightarrow> keyspace" where
  "deleteCache down ks key = (if down then ks else ks(key := None))"

section \<open>Chat store\<close>

text \<open>
  A stored chat turn. The collection is the list of turns in insertion order.
  \<^verbatim>\<open>Chat.find({ user_id }).sort({ timestamp: -1 })\<close> selects a user's turns,
  newest first; \<^verbatim>\<open>limit(0)\<close> means no limit.
\<close>

record chat =
  user_id :: user_id
  message :: string
  response :: string
  chat_timestamp :: int

definition find_user :: "chat list \<Rightarrow> user_id \<Rightarrow> chat list" where
  "find_user db userId = filter (\<lambda>c. user_id c = userId) db"

definition sort_newest_first :: "chat list \<Rightarrow> chat list" where
  "sort_newest_first cs = sort_key (\<lambda>c. - chat_timestamp c) cs"

definition skip_limit :: "nat \<Rightarrow> nat \<Rightarrow> 'a list \<Rightarrow> 'a list" where
  "skip_limit s l xs = (if l = 0 then drop s xs else take l (drop s xs))"

definition countDocuments :: "chat list \<Rightarrow> user_id \<Rightarrow> nat" where
  "countDocuments db userId = length (find_user db userId)"

definition chat_json :: "chat \<Rightarrow> json" where
  "chat_json c =
     JObj [(''user_id'', JStr (user_id c)), (''message'', JStr (message c)),
           (''response'', JStr (response c)), (''timestamp'', JNum (of_int (chat_timestamp c)))]"

section \<open>Errors and the environment of a request\<close>

text \<open>
  A thrown error, with the three properties the handlers look at:
  \<^verbatim>\<open>error.code\<close>, \<^verbatim>\<open>error.response\<close> and \<^verbatim>\<open>error.message\<close>. Only an error of
  \<^verbatim>\<open>axios.post\<close> has a response, and \<open>err_response\<close> is its status: both calls ask
  for \<^verbatim>\<open>responseType: "stream"\<close>, so the data of the response is the response
  stream itself, not a value.
\<close>

record js_error =
  err_code :: "string option"
  err_response :: "nat option"
  err_message :: string

text \<open>The body and options of the inference call, and the events of the response stream.\<close>

record inference_parameters =
  max_new_tokens :: nat
  temperature :: rat
  top_p :: rat
  return_full_text :: bool
  stream :: bool

record inference_request =
  inputs :: string
  parameters :: inference_parameters

record axios_options =
  Authorization :: string
  responseType :: string

datatype stream_event = Data string | End | Error js_error

text \<open>
  What a request finds outside the process: the clock, the JSON parser, the runtime's
  text of a number that is not a small integer, the inference providers
  (\<^verbatim>\<open>axios.post\<close> either rejects or resolves with a stream of events), and whether
  the store and the cache client fail.
\<close>

record env =
  Date_now :: int
  JSON_parse :: "string \<Rightarrow> json option"
  Number_toString :: "rat \<Rightarrow> string"
  axios_post :: "string \<Rightarrow> inference_request \<Rightarrow> axios_options \<Rightarrow> js_error + stream_event list"
  find_error :: "js_error option"
  negative_skip_error :: js_error
  save_error :: "js_error option"
  redis_down :: bool
  HUGGINGFACE_API_KEY :: string

text \<open>The state of the process and its stores.\<close>

record state =
  rateLimitCache :: rate_cache
  redis :: keyspace
  chats :: "chat list"

section \<open>Chat history route\<close>

text \<open>
  \<^verbatim>\<open>const { page = 1, limit = 20 } = req.query\<close>: a query parameter is the text
  that was supplied, or absent (\<open>None\<close>), and then the number given as default. The
  three readings of such a value: its text in a template literal, its number in
  arithmetic, and its JSON form in a reply. A supplied text is read as a number when
  it is a decimal numeral; what the arithmetic and the store make of any other text is
  not modelled (\<open>None\<close>).
\<close>

definition is_digit :: "char \<Rightarrow> bool" where
  "is_digit c = (c \<in> set ''0123456789'')"

definition digit_of :: "char \<Rightarrow> nat" where
  "digit_of c = length (takeWhile (\<lambda>d. d \<noteq> c) ''0123456789'')"

definition digits_value :: "string \<Rightarrow> nat option" where
  "digits_value s =
     (if s \<noteq> [] \<and> list_all is_digit s
      then Some (foldl (\<lambda>a c. 10 * a + digit_of c) 0 s) else None)"

definition text_of :: "nat \<Rightarrow> string option \<Rightarrow> string" where
  "text_of d q = (case q of None \<Rightarrow> show_nat d | Some s \<Rightarrow> s)"

definition number_of :: "nat \<Rightarrow> string option \<Rightarrow> nat option" where
  "number_of d q = (case q of None \<Rightarrow> Some d | Some s \<Rightarrow> digits_value s)"

definition json_of :: "nat \<Rightarrow> string option \<Rightarrow> json" where
  "json_of d q = (case q of None \<Rightarrow> JNum (of_nat d) | Some s \<Rightarrow> JStr s)"

definition default_page :: nat where
  "default_page = 1"

definition default_limit :: nat where
  "default_limit = 20"

record history_page =
  page_chats :: "chat list"
  totalPages :: "int option"
  currentPage :: json

text \<open>
  \<^verbatim>\<open>Math.ceil(total / limit)\<close>; with \<^verbatim>\<open>limit\<close> zero the quotient is not finite and
  is serialised as \<^verbatim>\<open>null\<close>.
\<close>

definition total_pages :: "nat \<Rightarrow> nat \<Rightarrow> int option" where
  "total_pages n limit = (if limit = 0 then None else Some (ceil_div (int n) (int limit)))"

definition history_json :: "history_page \<Rightarrow> json" where
  "history_json p =
     JObj [(''chats'', JArr (map chat_json (page_chats p))),
           (''totalPages'', (case totalPages p of None \<Rightarrow> JNull | Some n \<Rightarrow> JNum (of_int n))),
           (''currentPage'', currentPage p)]"

definition cacheKey :: "user_id \<Rightarrow> string \<Rightarrow> string \<Rightarrow> string" where
  "cacheKey userId page limit = ''chat_history:'' @ userId @ '':'' @ page @ '':'' @ limit"

definition query_page :: "chat list \<Rightarrow> user_id \<Rightarrow> nat \<Rightarrow> nat \<Rightarrow> json \<Rightarrow> history_page" where
  "query_page db userId page limit page_value =
     \<lparr> page_chats = skip_limit ((page - 1) * limit) limit (sort_newest_first (find_user db userId)),
       totalPages = total_pages (countDocuments db userId) limit,
       currentPage = page_value \<rparr>"

definition internal_error :: "js_error \<Rightarrow> http_response" where
  "internal_error e =
     \<lparr> status = 500,
       body = JObj [(''error'', JStr ''Internal server error''), (''message'', JStr (err_message e))] \<rparr>"

text \<open>
  \<^verbatim>\<open>router.get("/history")\<close>. The cache key is made of the texts of page and limit,
  the query of their numbers, and \<^verbatim>\<open>currentPage\<close> is the page value as it came. A
  skip of \<^verbatim>\<open>(page - 1) * limit\<close> below zero (page 0) is rejected by the store.
\<close>

definition history_miss ::
    "env \<Rightarrow> state \<Rightarrow> user_id \<Rightarrow> string option \<Rightarrow> string option \<Rightarrow> (state \<times> http_response) option" where
  "history_miss ev st userId page_q limit_q =
     (case number_of default_page page_q of
        None \<Rightarrow> None
      | Some page \<Rightarrow>
          (case number_of default_limit limit_q of
             None \<Rightarrow> None
           | Some limit \<Rightarrow>
               Some (case find_error ev of
                       Some e \<Rightarrow> (st, internal_error e)
                     | None \<Rightarrow>
                         if (int page - 1) * int limit < 0
                         then (st, internal_error (negative_skip_error ev))
                         else (let resp = history_json
                                     (query_page (chats st) userId page limit (json_of default_page page_q))
                               in (st\<lparr> redis := setCache (redis_down ev) (redis st)
                                       (cacheKey userId (text_of default_page page_q) (text_of default_limit limit_q))
                                       resp (Some 300) \<rparr>,
                                   \<lparr> status = 200, body = resp \<rparr>)))))"

definition getHistory ::
    "env \<Rightarrow> state \<Rightarrow> user_id \<Rightarrow> string option \<Rightarrow> string option \<Rightarrow> (state \<times> http_response) option" where
  "getHistory ev st userId page_q limit_q =
     (case getCache (redis_down ev) (redis st)
             (cacheKey userId (text_of default_page page_q) (text_of default_limit limit_q)) of
        None \<Rightarrow> history_miss ev st userId page_q limit_q
      | Some cachedData \<Rightarrow>
          if truthy cachedData then Some (st, \<lparr> status = 200, body = cachedData \<rparr>)
          else history_miss ev st userId page_q limit_q)"

section \<open>Chat submission route\<close>

subsection \<open>Validation\<close>

text \<open>
  \<^verbatim>\<open>body("message").trim().notEmpty().withMessage("Message cannot be empty")\<close>.
  The sanitizer strips from both ends the characters of the regular-expression class
  \<^verbatim>\<open>\s\<close>, listed here by their UTF-8 encodings: tab, line feed, vertical tab, form
  feed, carriage return, space, U+00A0, U+1680, U+2000 to U+200A, U+2028, U+2029,
  U+202F, U+205F, U+3000 and U+FEFF. It replaces the message by the result, and the
  check fails when nothing is left. The error object is the one
  \<^verbatim>\<open>errors.array()\<close> lists: type, value (the sanitized message, empty here),
  message, field name and location.
\<close>

definition whitespace :: "string list" where
  "whitespace =
     [[CHR 0x09], [CHR 0x0A], [CHR 0x0B], [CHR 0x0C], [CHR 0x0D], [CHR 0x20],
      [CHR 0xC2, CHR 0xA0],
      [CHR 0xE1, CHR 0x9A, CHR 0x80],
      [CHR 0xE2, CHR 0x80, CHR 0x80], [CHR 0xE2, CHR 0x80, CHR 0x81],
      [CHR 0xE2, CHR 0x80, CHR 0x82], [CHR 0xE2, CHR 0x80, CHR 0x83],
      [CHR 0xE2, CHR 0x80, CHR 0x84], [CHR 0xE2, CHR 0x80, CHR 0x85],
      [CHR 0xE2, CHR 0x80, CHR 0x86], [CHR 0xE2, CHR 0x80, CHR 0x87],
      [CHR 0xE2, CHR 0x80, CHR 0x88], [CHR 0xE2, CHR 0x80, CHR 0x89],
      [CHR 0xE2, CHR 0x80, CHR 0x8A],
      [CHR 0xE2, CHR 0x80, CHR 0xA8], [CHR 0xE2, CHR 0x80, CHR 0xA9],
      [CHR 0xE2, CHR 0x80, CHR 0xAF],
      [CHR 0xE2, CHR 0x81, CHR 0x9F],
      [CHR 0xE3, CHR 0x80, CHR 0x80],
      [CHR 0xEF, CHR 0xBB, CHR 0xBF]]"

definition endsWith :: "string \<Rightarrow> string \<Rightarrow> bool" where
  "endsWith s p = (drop (length s - length p) s = p)"

function ltrim :: "string \<Rightarrow> string" where
  "ltrim s =
     (case find (startsWith s) whitespace of
        None \<Rightarrow> s
      | Some w \<Rightarrow> ltrim (drop (length w) s))"
  by pat_completeness auto
termination
proof (relation "measure length")
  show "wf (measure length)" by simp
next
  fix s w
  assume "find (startsWith s) whitespace = Some w"
  then have "w \<in> set whitespace" and "startsWith s w"
    by (auto simp add: find_Some_iff)
  then have w: "w \<noteq> []" and t: "take (length w) s = w"
    by (auto simp add: whitespace_def startsWith_def)
  from t have "length (take (length w) s) = length w"
    by simp
  then have "length w \<le> length s"
    by simp
  with w show "(drop (length w) s, s) \<in> measure length"
    by (cases w) simp_all
qed

function rtrim :: "string \<Rightarrow> string" where
  "rtrim s =
     (case find (endsWith s) whitespace of
        None \<Rightarrow> s
      | Some w \<Rightarrow> rtrim (take (length s - length w) s))"
  by pat_completeness auto
termination
proof (relation "measure length")
  show "wf (measure length)" by simp
next
  fix s w
  assume "find (endsWith s) whitespace = Some w"
  then have "w \<in> set whitespace" and "endsWith s w"
    by (auto simp add: find_Some_iff)
  then have w: "w \<noteq> []" and d: "drop (length s - length w) s = w"
    by (auto simp add: whitespace_def endsWith_def)
  from d have "length (drop (length s - length w) s) = length w"
    by simp
  then have "length w \<le> length s"
    by simp
  with w show "(take (length s - length w) s, s) \<in> measure length"
    by (cases w) (simp_all add: min_def)
qed

declare ltrim.simps [simp del]

declare rtrim.simps [simp del]

definition trim :: "string \<Rightarrow> string" where
  "trim s = rtrim (ltrim s)"

definition validation_error :: json where
  "validation_error =
     JObj [(''type'', JStr ''field''), (''value'', JStr []),
           (''msg'', JStr ''Message cannot be empty''),
           (''path'', JStr ''message''), (''location'', JStr ''body'')]"

definition validateChatRequest :: "string \<Rightarrow> string \<times> json list" where
  "validateChatRequest m = (let t = trim m in (t, if t = [] then [validation_error] else []))"

definition handleValidationErrors :: "json list \<Rightarrow> http_response option" where
  "handleValidationErrors errors =
     (if errors \<noteq> [] then Some \<lparr> status = 400, body = JObj [(''errors'', JArr errors)] \<rparr> else None)"

subsection \<open>Prompt assembly\<close>

record msg =
  role :: string
  content :: string

definition history_messages :: "chat list \<Rightarrow> msg list" where
  "history_messages chatHistory =
     concat (map (\<lambda>c. [\<lparr> role = ''user'', content = message c \<rparr>,
                        \<lparr> role = ''assistant'', content = response c \<rparr>]) chatHistory)"

definition format_msg :: "msg \<Rightarrow> string" where
  "format_msg m =
     (if role m = ''user'' then ''<s>[INST] '' else []) @ content m @
     (if role m = ''user'' then '' [/INST]'' else [])"

definition build_prompt :: "chat list \<Rightarrow> string \<Rightarrow> string" where
  "build_prompt chatHistory m =
     join [CHR 0x0A] (map format_msg (history_messages chatHistory @ [\<lparr> role = ''user'', content = m \<rparr>]))"

definition recent_history :: "chat list \<Rightarrow> user_id \<Rightarrow> chat list" where
  "recent_history db userId = skip_limit 0 5 (sort_newest_first (find_user db userId))"

subsection \<open>Stream relay\<close>

text \<open>
  What is done to the response object: \<^verbatim>\<open>res.status(s).json(b)\<close>, a written frame
  \<^verbatim>\<open>data: <JSON>\<close>, the written sentinel \<^verbatim>\<open>data: [DONE]\<close>, and \<^verbatim>\<open>res.end()\<close>.
\<close>

datatype sink_event = Res_json http_response | Write_data json | Write_done | Res_end

record session =
  fullResponse :: string
  sink :: "sink_event list"
  world :: state

text \<open>
  \<^verbatim>\<open>data.generated_text\<close> when it is truthy. Reading the property of \<^verbatim>\<open>null\<close>
  throws inside the \<^verbatim>\<open>try\<close>, which is caught and logged like a parse error; any
  other value that is not an object has no such property.
\<close>

fun generated_text :: "json \<Rightarrow> json option" where
  "generated_text (JObj fs) =
     (case map_of fs ''generated_text'' of
        None \<Rightarrow> None
      | Some v \<Rightarrow> if truthy v then Some v else None)"
| "generated_text _ = None"

definition delta :: "json \<Rightarrow> json" where
  "delta c = JObj [(''choices'', JArr [JObj [(''delta'', JObj [(''content'', c)])]])]"

definition on_line :: "env \<Rightarrow> session \<Rightarrow> string \<Rightarrow> session" where
  "on_line ev s line =
     (if startsWith line ''data: '' then
        (case JSON_parse ev (drop 6 line) of
           None \<Rightarrow> s
         | Some d \<Rightarrow>
             (case generated_text d of
                None \<Rightarrow> s
              | Some c \<Rightarrow> s\<lparr> fullResponse := fullResponse s @ ToString (Number_toString ev) c,
                              sink := sink s @ [Write_data (delta c)] \<rparr>))
      else s)"

definition on_data :: "env \<Rightarrow> session \<Rightarrow> string \<Rightarrow> session" where
  "on_data ev s chunk = foldl (on_line ev) s (split_nl chunk)"

text \<open>
  Modelled from the spec: the \<^verbatim>\<open>Chat\<close> schema (\<^verbatim>\<open>models/Chat\<close>) is not among the
  sources; a turn is the user, the message, the response and its creation time.
\<close>

definition new_chat :: "env \<Rightarrow> user_id \<Rightarrow> string \<Rightarrow> string \<Rightarrow> chat" where
  "new_chat ev userId m r =
     \<lparr> user_id = userId, message = m, response = r, chat_timestamp = Date_now ev \<rparr>"

definition invalidation_key :: "user_id \<Rightarrow> string" where
  "invalidation_key userId = ''chat_history:'' @ userId @ '':*''"

definition on_end :: "env \<Rightarrow> user_id \<Rightarrow> string \<Rightarrow> session \<Rightarrow> session" where
  "on_end ev userId m s =
     (case save_error ev of
        Some e \<Rightarrow>
          s\<lparr> sink := sink s @ [Write_data (JObj [(''error'', JStr ''Error saving chat'')]), Res_end] \<rparr>
      | None \<Rightarrow>
          (let w = world s;
               w1 = w\<lparr> chats := chats w @ [new_chat ev userId m (fullResponse s)] \<rparr>;
               w2 = w1\<lparr> redis := deleteCache (redis_down ev) (redis w1) (invalidation_key userId) \<rparr>
           in s\<lparr> world := w2, sink := sink s @ [Write_done, Res_end] \<rparr>))"

definition on_error :: "session \<Rightarrow> session" where
  "on_error s = s\<lparr> sink := sink s @ [Write_data (JObj [(''error'', JStr ''Stream error'')]), Res_end] \<rparr>"

fun on_event :: "env \<Rightarrow> user_id \<Rightarrow> string \<Rightarrow> session \<Rightarrow> stream_event \<Rightarrow> session" where
  "on_event ev userId m s (Data chunk) = on_data ev s chunk"
| "on_event ev userId m s End = on_end ev userId m s"
| "on_event ev userId m s (Error e) = on_error s"

text \<open>
  \<^verbatim>\<open>handleStreamResponse\<close>: the three handlers, run on the events of the response
  stream in the order they arrive, starting from an empty \<^verbatim>\<open>fullResponse\<close>.
\<close>

definition handleStreamResponse :: "env \<Rightarrow> stream_event list \<Rightarrow> sink_event list \<Rightarrow> user_id \<Rightarrow> string \<Rightarrow> state \<Rightarrow> session" where
  "handleStreamResponse ev events res userId m st =
     foldl (on_event ev userId m) \<lparr> fullResponse = [], sink = res, world = st \<rparr> events"

subsection \<open>Provider calls and fallback\<close>

definition HUGGINGFACE_API_URL :: string where
  "HUGGINGFACE_API_URL = ''https://api-inference.huggingface.co/models/mistralai/Mistral-7B-Instruct-v0.2''"

definition FALLBACK_API_URL :: string where
  "FALLBACK_API_URL = ''https://api-inference.huggingface.co/models/meta-llama/Llama-2-7b-chat-hf''"

definition primary_request :: "string \<Rightarrow> inference_request" where
  "primary_request prompt =
     \<lparr> inputs = prompt,
       parameters = \<lparr> max_new_tokens = 1000, temperature = 7 / 10, top_p = 95 / 100,
                      return_full_text = False, stream = True \<rparr> \<rparr>"

definition fallback_request :: "string \<Rightarrow> inference_request" where
  "fallback_request prompt =
     \<lparr> inputs = prompt,
       parameters = \<lparr> max_new_tokens = 1000, temperature = 7 / 10, top_p = 95 / 100,
                      return_full_text = False, stream = True \<rparr> \<rparr>"

definition request_options :: "env \<Rightarrow> axios_options" where
  "request_options ev =
     \<lparr> Authorization = ''Bearer '' @ HUGGINGFACE_API_KEY ev, responseType = ''stream'' \<rparr>"

text \<open>
  The outer \<^verbatim>\<open>catch\<close> of the route. For an error with a response the handler calls
  \<^verbatim>\<open>res.status(error.response.status).json({..., message: error.response.data})\<close>;
  the data is the response stream, serialising it throws inside the \<^verbatim>\<open>catch\<close>, and
  no reply is sent (\<open>None\<close>).
\<close>

definition catch_error :: "js_error \<Rightarrow> http_response option" where
  "catch_error e =
     (if err_code e = Some ''ECONNABORTED''
      then Some \<lparr> status = 504,
                  body = JObj [(''error'', JStr ''Request timeout''),
                               (''message'', JStr ''AI service took too long to respond'')] \<rparr>
      else (case err_response e of
              Some s \<Rightarrow> None
            | None \<Rightarrow>
                Some \<lparr> status = 500,
                       body = JObj [(''error'', JStr ''Server error''),
                                    (''message'', JStr (err_message e))] \<rparr>))"

definition replied :: "http_response option \<Rightarrow> sink_event list" where
  "replied r = (case r of None \<Rightarrow> [] | Some x \<Rightarrow> [Res_json x])"

text \<open>
  The result of a submission: the state afterwards, the headers set, what was done
  to the response, and the provider calls made, in order.
\<close>

record outcome =
  final :: state
  headers :: "(string \<times> string) list"
  sent :: "sink_event list"
  calls :: "(string \<times> inference_request \<times> axios_options) list"

definition sse_headers :: "(string \<times> string) list" where
  "sse_headers = [(''Content-Type'', ''text/event-stream''), (''Cache-Control'', ''no-cache''),
                  (''Connection'', ''keep-alive'')]"

definition relayed :: "env \<Rightarrow> stream_event list \<Rightarrow> user_id \<Rightarrow> string \<Rightarrow> state \<Rightarrow>
    (string \<times> inference_request \<times> axios_options) list \<Rightarrow> outcome" where
  "relayed ev events userId m st cs =
     (let s = handleStreamResponse ev events [] userId m st
      in \<lparr> final = world s, headers = sse_headers, sent = sink s, calls = cs \<rparr>)"

definition chat_handler :: "env \<Rightarrow> state \<Rightarrow> user_id \<Rightarrow> string \<Rightarrow> outcome" where
  "chat_handler ev st userId m =
     (case find_error ev of
        Some e \<Rightarrow> \<lparr> final = st, headers = sse_headers, sent = replied (catch_error e), calls = [] \<rparr>
      | None \<Rightarrow>
          (let prompt = build_prompt (recent_history (chats st) userId) m;
               primary = (HUGGINGFACE_API_URL, primary_request prompt, request_options ev);
               fallback = (FALLBACK_API_URL, fallback_request prompt, request_options ev)
           in case axios_post ev HUGGINGFACE_API_URL (primary_request prompt) (request_options ev) of
                Inr primaryResponse \<Rightarrow> relayed ev primaryResponse userId m st [primary]
              | Inl primaryError \<Rightarrow>
                  (case axios_post ev FALLBACK_API_URL (fallback_request prompt) (request_options ev) of
                     Inr fallbackResponse \<Rightarrow> relayed ev fallbackResponse userId m st [primary, fallback]
                   | Inl fallbackError \<Rightarrow>
                       \<lparr> final = st, headers = sse_headers,
                         sent = replied (catch_error fallbackError),
                         calls = [primary, fallback] \<rparr>)))"

text \<open>
  \<^verbatim>\<open>router.post("/", auth, validateChatRequest, handleValidationErrors, rateLimit, ...)\<close>
  for an authenticated user: the middlewares run in this order and each one either
  replies or passes the request on.
\<close>

record chat_request =
  req_user :: user_id
  req_message :: string

definition chat_route :: "config \<Rightarrow> env \<Rightarrow> state \<Rightarrow> chat_request \<Rightarrow> outcome" where
  "chat_route cfg ev st req =
     (let (m, errors) = validateChatRequest (req_message req) in
      case handleValidationErrors errors of
        Some r \<Rightarrow> \<lparr> final = st, headers = [], sent = [Res_json r], calls = [] \<rparr>
      | None \<Rightarrow>
          (case rateLimit cfg (Date_now ev) (req_user req) (rateLimitCache st) of
             (m1, Some r) \<Rightarrow>
               \<lparr> final = st\<lparr> rateLimitCache := m1 \<rparr>, headers = [], sent = [Res_json r], calls = [] \<rparr>
           | (m1, None) \<Rightarrow> chat_handler ev (st\<lparr> rateLimitCache := m1 \<rparr>) (req_user req) m))"

section \<open>Notions used by the properties\<close>

subsection \<open>Streams and frames\<close>

text \<open>
  A response stream that runs to its end: \<^verbatim>\<open>data\<close> events followed by exactly one
  \<^verbatim>\<open>end\<close> or \<^verbatim>\<open>error\<close> event.
\<close>

fun complete_stream :: "stream_event list \<Rightarrow> bool" where
  "complete_stream [] = False"
| "complete_stream (Data c # es) = complete_stream es"
| "complete_stream (End # es) = (es = [])"
| "complete_stream (Error e # es) = (es = [])"

text \<open>The content a line contributes, the contents of a chunk and of a list of chunks.\<close>

definition line_fragment :: "env \<Rightarrow> string \<Rightarrow> json option" where
  "line_fragment ev line =
     (if startsWith line ''data: ''
      then Option.bind (JSON_parse ev (drop 6 line)) generated_text else None)"

definition fragments :: "env \<Rightarrow> string \<Rightarrow> json list" where
  "fragments ev chunk = List.map_filter (line_fragment ev) (split_nl chunk)"

definition forwarded :: "env \<Rightarrow> string list \<Rightarrow> json list" where
  "forwarded ev chunks = concat (map (fragments ev) chunks)"

definition forward :: "env \<Rightarrow> session \<Rightarrow> json list \<Rightarrow> session" where
  "forward ev s cs =
     s\<lparr> fullResponse := fullResponse s @ concat (map (ToString (Number_toString ev)) cs),
        sink := sink s @ map (\<lambda>c. Write_data (delta c)) cs \<rparr>"

definition closed_once :: "sink_event list \<Rightarrow> bool" where
  "closed_once out = (count_list out Res_end = 1 \<and> last out = Res_end)"

text \<open>
  The frames of a stream, in the words of the specification: a frame is a line of a
  chunk that starts with \<^verbatim>\<open>data: \<close>, and its payload is the rest of the line. The
  text of a frame is its \<^verbatim>\<open>generated_text\<close> field when the payload parses to an
  object that has one, and nothing otherwise. \<open>text_fields\<close> says that every such
  field of a parsed frame is a string or \<^verbatim>\<open>null\<close>.
\<close>

definition frames :: "string list \<Rightarrow> string list" where
  "frames chunks = map (drop 6) (filter (\<lambda>l. startsWith l ''data: '') (concat (map split_nl chunks)))"

fun field_text :: "json \<Rightarrow> string" where
  "field_text (JObj fs) = (case map_of fs ''generated_text'' of Some (JStr s) \<Rightarrow> s | _ \<Rightarrow> [])"
| "field_text _ = []"

definition frame_text :: "env \<Rightarrow> string \<Rightarrow> string" where
  "frame_text ev p = (case JSON_parse ev p of None \<Rightarrow> [] | Some d \<Rightarrow> field_text d)"

fun text_field_ok :: "json \<Rightarrow> bool" where
  "text_field_ok (JObj fs) =
     (case map_of fs ''generated_text'' of
        None \<Rightarrow> True | Some (JStr s) \<Rightarrow> True | Some JNull \<Rightarrow> True | Some _ \<Rightarrow> False)"
| "text_field_ok _ = True"

definition text_fields :: "env \<Rightarrow> string list \<Rightarrow> bool" where
  "text_fields ev chunks =
     list_all (\<lambda>p. case JSON_parse ev p of None \<Rightarrow> True | Some d \<Rightarrow> text_field_ok d) (frames chunks)"

subsection \<open>A concrete scenario\<close>

text \<open>
  A user with one stored turn, a parser that knows three payloads, a primary
  provider that streams the fragments \<open>Hi\<close> and \<open> there\<close> (with one malformed frame
  in between) and a fallback provider that times out.
\<close>

definition quoted :: "string \<Rightarrow> string" where
  "quoted s = CHR 0x22 # s @ [CHR 0x22]"

definition payload :: "string \<Rightarrow> string" where
  "payload s = ''{'' @ quoted ''generated_text'' @ '':'' @ quoted s @ ''}''"

definition demo_parse :: "string \<Rightarrow> json option" where
  "demo_parse p =
     map_of [(payload ''Hi'', JObj [(''generated_text'', JStr ''Hi'')]),
             (payload '' there'', JObj [(''generated_text'', JStr '' there'')]),
             (payload ''ok'', JObj [(''generated_text'', JStr ''ok'')])] p"

definition demo_chunks :: "string list" where
  "demo_chunks =
     [''data: '' @ payload ''Hi'' @ [CHR 0x0A] @ ''data: {oops'' @ [CHR 0x0A, CHR 0x0A],
      ''data: '' @ payload '' there'' @ [CHR 0x0A]]"

definition timeout_error :: js_error where
  "timeout_error = \<lparr> err_code = Some ''ECONNABORTED'', err_response = None,
                     err_message = ''timeout of 30000ms exceeded'' \<rparr>"

definition provider_error :: js_error where
  "provider_error = \<lparr> err_code = Some ''ERR_BAD_RESPONSE'',
                      err_response = Some 503,
                      err_message = ''Request failed with status code 503'' \<rparr>"

definition store_error :: js_error where
  "store_error = \<lparr> err_code = None, err_response = None, err_message = ''connection closed'' \<rparr>"

definition demo_env :: env where
  "demo_env =
     \<lparr> Date_now = 2000,
       JSON_parse = demo_parse,
       Number_toString = (\<lambda>r. ''1e+21''),
       axios_post = (\<lambda>url b opts.
          if url = HUGGINGFACE_API_URL then Inr (map Data demo_chunks @ [End])
          else Inl timeout_error),
       find_error = None,
       negative_skip_error = store_error,
       save_error = None,
       redis_down = False,
       HUGGINGFACE_API_KEY = ''hf_key'' \<rparr>"

definition demo_state :: state where
  "demo_state =
     \<lparr> rateLimitCache = Map.empty,
       redis = Map.empty,
       chats = [\<lparr> user_id = ''u1'', message = ''Hey'', response = ''Hello!'', chat_timestamp = 1000 \<rparr>] \<rparr>"

definition failing_env :: env where
  "failing_env =
     demo_env\<lparr> axios_post := (\<lambda>url b opts.
        if url = HUGGINGFACE_API_URL then Inl provider_error else Inl timeout_error) \<rparr>"

definition busy_state :: state where
  "busy_state = demo_state\<lparr> rateLimitCache := [''u1'' \<mapsto> \<lparr> count = 100, timestamp = 1000 \<rparr>] \<rparr>"

subsection \<open>The rate-limit map\<close>

text \<open>No entry of the map counts more than the configured maximum.\<close>

definition counts_bounded :: "config \<Rightarrow> rate_cache \<Rightarrow> bool" where
  "counts_bounded cfg m = (\<forall>u e. m u = Some e \<longrightarrow> count e \<le> MAX_REQUESTS cfg)"

subsection \<open>The shape of a reply\<close>




subsection \<open>Prompts and pages\<close>

text \<open>
  A user turn of the prompt, in the words of the specification: the text wrapped in the
  instruction markers. \<open>newest_first\<close> says that a list of turns is ordered by
  creation time, newest first.
\<close>

definition user_turn :: "string \<Rightarrow> string" where
  "user_turn s = ''<s>[INST] '' @ s @ '' [/INST]''"

definition newest_first :: "chat list \<Rightarrow> bool" where
  "newest_first cs = sorted_wrt (\<lambda>a b. chat_timestamp b \<le> chat_timestamp a) cs"

text \<open>A collection with six turns of one user and one of another, in no particular order.\<close>

definition long_history :: "chat list" where
  "long_history =
     [\<lparr> user_id = ''u1'', message = ''m3'', response = ''r3'', chat_timestamp = 30 \<rparr>,
      \<lparr> user_id = ''u1'', message = ''m1'', response = ''r1'', chat_timestamp = 10 \<rparr>,
      \<lparr> user_id = ''u2'', message = ''x'', response = ''y'', chat_timestamp = 35 \<rparr>,
      \<lparr> user_id = ''u1'', message = ''m6'', response = ''r6'', chat_timestamp = 60 \<rparr>,
      \<lparr> user_id = ''u1'', message = ''m2'', response = ''r2'', chat_timestamp = 20 \<rparr>,
      \<lparr> user_id = ''u1'', message = ''m5'', response = ''r5'', chat_timestamp = 50 \<rparr>,
      \<lparr> user_id = ''u1'', message = ''m4'', response = ''r4'', chat_timestamp = 40 \<rparr>]"

definition paged_state :: state where
  "paged_state = demo_state\<lparr> chats := long_history \<rparr>"

text \<open>
  The scenario of a stale page: the user reads the first page of the history (which
  caches it), then submits a message that is streamed and saved.
\<close>

definition cached_state :: state where
  "cached_state =
     (case getHistory demo_env demo_state ''u1'' None None of
        None \<Rightarrow> demo_state
      | Some r \<Rightarrow> fst r)"

definition submitted :: outcome where
  "submitted = chat_route default_config demo_env cached_state \<lparr> req_user = ''u1'', req_message = ''Hello'' \<rparr>"

subsection \<open>Whitespace and more scenarios\<close>

text \<open>The encoding of one whitespace character.\<close>

definition is_space :: "string \<Rightarrow> bool" where
  "is_space w = (w \<in> set whitespace)"

text \<open>
  A primary provider that answers and then loses the connection before any data
  arrives, with a fallback that would stream.
\<close>

definition reset_error :: js_error where
  "reset_error = \<lparr> err_code = Some ''ECONNRESET'', err_response = None, err_message = ''aborted'' \<rparr>"

definition stalled_env :: env where
  "stalled_env =
     demo_env\<lparr> axios_post := (\<lambda>url b opts.
        if url = HUGGINGFACE_API_URL then Inr [Error reset_error]
        else Inr (map Data demo_chunks @ [End])) \<rparr>"

section \<open>The stream relay\<close>

lemma forward_Nil: "forward ev s [] = s"
  by (simp add: forward_def)

lemma forward_append: "forward ev (forward ev s xs) ys = forward ev s (xs @ ys)"
  by (simp add: forward_def)

lemma on_line_fragment:
  "on_line ev s l = forward ev s (case line_fragment ev l of None \<Rightarrow> [] | Some c \<Rightarrow> [c])"
  by (simp add: on_line_def line_fragment_def forward_def split: option.splits)

lemma foldl_on_line:
  "foldl (on_line ev) s ls = forward ev s (List.map_filter (line_fragment ev) ls)"
proof (induction ls arbitrary: s)
  case Nil
  then show ?case by (simp add: map_filter_simps forward_Nil)
next
  case (Cons l ls)
  have "foldl (on_line ev) s (l # ls) = foldl (on_line ev) (on_line ev s l) ls"
    by simp
  also have "\<dots> = forward ev (on_line ev s l) (List.map_filter (line_fragment ev) ls)"
    by (rule Cons.IH)
  also have "\<dots> = forward ev s (List.map_filter (line_fragment ev) (l # ls))"
    by (simp add: on_line_fragment forward_append forward_Nil map_filter_simps split: option.splits)
  finally show ?case .
qed

lemma on_data_fragments: "on_data ev s chunk = forward ev s (fragments ev chunk)"
  by (simp add: on_data_def fragments_def foldl_on_line)

lemma relay_chunks:
  "foldl (on_event ev u m) s (map Data chunks) = forward ev s (forwarded ev chunks)"
proof (induction chunks arbitrary: s)
  case Nil
  then show ?case by (simp add: forward_Nil forwarded_def)
next
  case (Cons c cs)
  then show ?case by (simp add: on_data_fragments forward_append forwarded_def)
qed

lemma relay_to_end:
  "handleStreamResponse ev (map Data chunks @ [End]) res u m st =
     on_end ev u m (forward ev \<lparr> fullResponse = [], sink = res, world = st \<rparr> (forwarded ev chunks))"
  by (simp add: handleStreamResponse_def relay_chunks)

lemma relay_to_error:
  "handleStreamResponse ev (map Data chunks @ [Error e]) res u m st =
     on_error (forward ev \<lparr> fullResponse = [], sink = res, world = st \<rparr> (forwarded ev chunks))"
  by (simp add: handleStreamResponse_def relay_chunks)

subsection \<open>The sink is closed once\<close>

lemma sink_forward_no_end: "Res_end \<notin> set (sink s) \<Longrightarrow> Res_end \<notin> set (sink (forward ev s cs))"
  by (auto simp add: forward_def)

lemma on_end_closed: "Res_end \<notin> set (sink s) \<Longrightarrow> closed_once (sink (on_end ev u m s))"
  by (simp add: on_end_def closed_once_def Let_def split: option.splits)

lemma on_error_closed: "Res_end \<notin> set (sink s) \<Longrightarrow> closed_once (sink (on_error s))"
  by (simp add: on_error_def closed_once_def)

lemma relay_closed_once:
  "complete_stream events \<Longrightarrow> Res_end \<notin> set (sink s) \<Longrightarrow>
     closed_once (sink (foldl (on_event ev u m) s events))"
proof (induction events arbitrary: s rule: complete_stream.induct)
  case 1
  then show ?case by simp
next
  case (2 c es)
  then show ?case by (simp add: on_data_fragments sink_forward_no_end)
next
  case (3 es)
  then show ?case by (simp add: on_end_closed)
next
  case (4 e es)
  then show ?case by (simp add: on_error_closed)
qed

text \<open>
  C9. Whatever way a complete stream ends (end of stream with the turn saved, end of
  stream with the save failing, or a stream error), and whatever the chunks contain,
  the relay calls \<^verbatim>\<open>res.end()\<close> exactly once and it is the last thing done to the
  response: nothing is written after the close.
\<close>

theorem sink_closed_exactly_once:
  "complete_stream events \<Longrightarrow>
     count_list (sink (handleStreamResponse ev events [] userId m st)) Res_end = 1 \<and>
     last (sink (handleStreamResponse ev events [] userId m st)) = Res_end"
  using relay_closed_once [of events "\<lparr> fullResponse = [], sink = [], world = st \<rparr>" ev userId m]
  by (simp add: handleStreamResponse_def closed_once_def)

theorem sink_closed_exactly_once_witness:
  "complete_stream (map Data demo_chunks @ [Error store_error]) \<and>
   count_list (sink (handleStreamResponse (demo_env\<lparr> save_error := Some store_error \<rparr>)
                      (map Data demo_chunks @ [Error store_error]) [] ''u1'' ''Hello'' demo_state)) Res_end = 1 \<and>
   last (sink (handleStreamResponse (demo_env\<lparr> save_error := Some store_error \<rparr>)
                      (map Data demo_chunks @ [Error store_error]) [] ''u1'' ''Hello'' demo_state)) = Res_end"
proof -
  have h: "complete_stream (map Data demo_chunks @ [Error store_error])"
    by (simp add: demo_chunks_def)
  from h sink_closed_exactly_once [OF h] show ?thesis
    by simp
qed

subsection \<open>What is persisted\<close>

lemma generated_text_field_text:
  "text_field_ok d \<Longrightarrow> (case generated_text d of None \<Rightarrow> [] | Some c \<Rightarrow> ToString num c) = field_text d"
  by (cases d) (auto split: option.splits json.splits)

lemma lines_text:
  "list_all (\<lambda>p. case JSON_parse ev p of None \<Rightarrow> True | Some d \<Rightarrow> text_field_ok d)
      (map (drop 6) (filter (\<lambda>l. startsWith l ''data: '') ls)) \<Longrightarrow>
   concat (map (ToString (Number_toString ev)) (List.map_filter (line_fragment ev) ls)) =
   concat (map (frame_text ev) (map (drop 6) (filter (\<lambda>l. startsWith l ''data: '') ls)))"
proof (induction ls)
  case Nil
  then show ?case by (simp add: map_filter_simps)
next
  case (Cons l ls)
  show ?case
  proof (cases "startsWith l ''data: ''")
    case False
    with Cons show ?thesis by (simp add: map_filter_simps line_fragment_def)
  next
    case True
    show ?thesis
    proof (cases "JSON_parse ev (drop 6 l)")
      case None
      with True Cons show ?thesis by (simp add: map_filter_simps line_fragment_def frame_text_def)
    next
      case (Some d)
      with True Cons have ok: "text_field_ok d" by simp
      from generated_text_field_text [OF ok, of "Number_toString ev"] True Some Cons show ?thesis
        by (simp add: map_filter_simps line_fragment_def frame_text_def split: option.splits)
    qed
  qed
qed

lemma forwarded_text:
  "text_fields ev chunks \<Longrightarrow>
     concat (map (ToString (Number_toString ev)) (forwarded ev chunks)) = concat (map (frame_text ev) (frames chunks))"
proof (induction chunks)
  case Nil
  then show ?case by (simp add: forwarded_def frames_def)
next
  case (Cons c cs)
  from Cons.prems
  have a: "list_all (\<lambda>p. case JSON_parse ev p of None \<Rightarrow> True | Some d \<Rightarrow> text_field_ok d)
             (map (drop 6) (filter (\<lambda>l. startsWith l ''data: '') (split_nl c)))"
    and b: "text_fields ev cs"
    by (simp_all add: text_fields_def frames_def)
  from lines_text [OF a] Cons.IH [OF b] show ?case
    by (simp add: forwarded_def frames_def fragments_def)
qed

text \<open>
  C3. When the stream ends and the save succeeds, exactly one turn is appended to the
  collection. Its response is the concatenation, in stream order, of the texts of the
  frames: the \<^verbatim>\<open>generated_text\<close> of each frame that parses, nothing for a frame that
  does not parse, and the frames after such a frame still count. The same contents,
  in the same order, are what was forwarded before the sentinel. This is stated for
  streams whose \<^verbatim>\<open>generated_text\<close> fields are strings or \<^verbatim>\<open>null\<close>.
\<close>

theorem persisted_turn_is_concatenation:
  "save_error ev = None \<Longrightarrow> text_fields ev chunks \<Longrightarrow>
     chats (world (handleStreamResponse ev (map Data chunks @ [End]) [] userId m st)) =
       chats st @ [\<lparr> user_id = userId, message = m,
                     response = concat (map (frame_text ev) (frames chunks)),
                     chat_timestamp = Date_now ev \<rparr>] \<and>
     sink (handleStreamResponse ev (map Data chunks @ [End]) [] userId m st) =
       map (\<lambda>c. Write_data (delta c)) (forwarded ev chunks) @ [Write_done, Res_end] \<and>
     concat (map (ToString (Number_toString ev)) (forwarded ev chunks)) = concat (map (frame_text ev) (frames chunks))"
  by (simp add: relay_to_end on_end_def forward_def new_chat_def Let_def forwarded_text)

lemma demo_frames:
  "frames demo_chunks = [payload ''Hi'', ''{oops'', payload '' there'']"
  by (simp add: frames_def demo_chunks_def payload_def quoted_def startsWith_def)

lemma demo_text_fields: "text_fields demo_env demo_chunks"
  by (simp add: text_fields_def demo_frames demo_env_def demo_parse_def payload_def quoted_def)

lemma demo_frame_texts:
  "concat (map (frame_text demo_env) (frames demo_chunks)) = ''Hi there''"
  by (simp add: demo_frames frame_text_def demo_env_def demo_parse_def payload_def quoted_def)

theorem persisted_turn_is_concatenation_witness:
  "save_error demo_env = None \<and> text_fields demo_env demo_chunks \<and>
   chats (world (handleStreamResponse demo_env (map Data demo_chunks @ [End]) [] ''u1'' ''Hello'' demo_state)) =
     [\<lparr> user_id = ''u1'', message = ''Hey'', response = ''Hello!'', chat_timestamp = 1000 \<rparr>,
      \<lparr> user_id = ''u1'', message = ''Hello'', response = ''Hi there'', chat_timestamp = 2000 \<rparr>]"
proof -
  have h1: "save_error demo_env = None"
    by (simp add: demo_env_def)
  have h2: "text_fields demo_env demo_chunks"
    by (rule demo_text_fields)
  have d: "Date_now demo_env = 2000"
    by (simp add: demo_env_def)
  from persisted_turn_is_concatenation [OF h1 h2, of "''u1''" "''Hello''" demo_state] h1 h2 d
  show ?thesis
    by (simp add: demo_frame_texts demo_state_def)
qed

text \<open>
  C2, as the code has it. When the stream ends and the save fails, the relay writes
  the error event \<^verbatim>\<open>{"error": "Error saving chat"}\<close> after the forwarded contents and
  closes the response; the sentinel \<^verbatim>\<open>[DONE]\<close> is not written, and neither the
  collection nor the cache changes (the turn is lost).
\<close>

theorem save_failure_sends_error_event:
  "save_error ev = Some e \<Longrightarrow>
     sink (handleStreamResponse ev (map Data chunks @ [End]) [] userId m st) =
       map (\<lambda>c. Write_data (delta c)) (forwarded ev chunks) @
       [Write_data (JObj [(''error'', JStr ''Error saving chat'')]), Res_end] \<and>
     Write_done \<notin> set (sink (handleStreamResponse ev (map Data chunks @ [End]) [] userId m st)) \<and>
     world (handleStreamResponse ev (map Data chunks @ [End]) [] userId m st) = st"
  by (auto simp add: relay_to_end on_end_def forward_def)

theorem save_failure_sends_error_event_witness:
  "save_error (demo_env\<lparr> save_error := Some store_error \<rparr>) = Some store_error \<and>
   Write_done \<notin> set (sink (handleStreamResponse (demo_env\<lparr> save_error := Some store_error \<rparr>)
                             (map Data demo_chunks @ [End]) [] ''u1'' ''Hello'' demo_state)) \<and>
   world (handleStreamResponse (demo_env\<lparr> save_error := Some store_error \<rparr>)
            (map Data demo_chunks @ [End]) [] ''u1'' ''Hello'' demo_state) = demo_state"
proof -
  have h: "save_error (demo_env\<lparr> save_error := Some store_error \<rparr>) = Some store_error"
    by simp
  from save_failure_sends_error_event [OF h, of demo_chunks "''u1''" "''Hello''" demo_state] h
  show ?thesis
    by blast
qed

text \<open>
  The claim C2 as stated fails: with the save failing, a stream that ends well is
  answered without the sentinel.
\<close>

theorem done_not_sent_when_save_fails:
  "save_error (demo_env\<lparr> save_error := Some store_error \<rparr>) \<noteq> None \<and>
   Write_done \<notin> set (sink (handleStreamResponse (demo_env\<lparr> save_error := Some store_error \<rparr>)
           [Data (''data: '' @ payload ''Hi''), End] [] ''u1'' ''Hello'' demo_state)) \<and>
   sink (handleStreamResponse (demo_env\<lparr> save_error := Some store_error \<rparr>)
           [Data (''data: '' @ payload ''Hi''), End] [] ''u1'' ''Hello'' demo_state) =
     [Write_data (delta (JStr ''Hi'')),
      Write_data (JObj [(''error'', JStr ''Error saving chat'')]), Res_end]"
  by (simp add: handleStreamResponse_def on_data_def on_line_def on_end_def startsWith_def
      demo_env_def demo_parse_def payload_def quoted_def)

section \<open>The submission route\<close>

subsection \<open>Validation comes first\<close>

lemma whitespace_nonempty: "w \<in> set whitespace \<Longrightarrow> w \<noteq> []"
  by (auto simp add: whitespace_def)

lemma find_whitespace_prefix:
  "w \<in> set whitespace \<Longrightarrow> find (startsWith (w @ s)) whitespace = Some w"
  unfolding whitespace_def startsWith_def
  by (elim disjE | simp)+

lemma ltrim_space: "is_space w \<Longrightarrow> ltrim (w @ s) = ltrim s"
  by (subst ltrim.simps) (simp add: is_space_def find_whitespace_prefix)

lemma ltrim_blank: "list_all is_space ws \<Longrightarrow> ltrim (concat ws) = []"
proof (induction ws)
  case Nil
  show ?case by (subst ltrim.simps) (simp add: whitespace_def startsWith_def)
next
  case (Cons w ws)
  then show ?case by (simp add: ltrim_space)
qed

lemma rtrim_Nil: "rtrim [] = []"
  by (subst rtrim.simps) (simp add: whitespace_def endsWith_def)

lemma trim_blank: "list_all is_space ws \<Longrightarrow> trim (concat ws) = []"
  by (simp add: trim_def ltrim_blank rtrim_Nil)

lemma trim_Hello: "trim ''Hello'' = ''Hello''"
proof -
  have "ltrim ''Hello'' = ''Hello''"
    by (subst ltrim.simps) (simp add: whitespace_def startsWith_def)
  moreover have "rtrim ''Hello'' = ''Hello''"
    by (subst rtrim.simps) (simp add: whitespace_def endsWith_def)
  ultimately show ?thesis by (simp add: trim_def)
qed

lemma chat_route_invalid:
  "trim (req_message req) = [] \<Longrightarrow>
     chat_route cfg ev st req =
       \<lparr> final = st, headers = [],
         sent = [Res_json \<lparr> status = 400, body = JObj [(''errors'', JArr [validation_error])] \<rparr>],
         calls = [] \<rparr>"
  by (simp add: chat_route_def validateChatRequest_def handleValidationErrors_def)

lemma chat_route_valid:
  "trim (req_message req) \<noteq> [] \<Longrightarrow>
     chat_route cfg ev st req =
       (case rateLimit cfg (Date_now ev) (req_user req) (rateLimitCache st) of
          (m1, Some r) \<Rightarrow>
            \<lparr> final = st\<lparr> rateLimitCache := m1 \<rparr>, headers = [], sent = [Res_json r], calls = [] \<rparr>
        | (m1, None) \<Rightarrow>
            chat_handler ev (st\<lparr> rateLimitCache := m1 \<rparr>) (req_user req) (trim (req_message req)))"
  by (simp add: chat_route_def validateChatRequest_def handleValidationErrors_def)

text \<open>
  C10. A submission whose message is empty or consists of whitespace only (a
  concatenation of whitespace characters, which may be none) is answered with status
  400 by the validation middleware; the rate governor does not run, so the whole
  state, and with it the rate-limit map and the user's entry in it, is as before, and
  no provider is called.
\<close>

theorem blank_message_leaves_rate_budget:
  "list_all is_space ws \<Longrightarrow> req_message req = concat ws \<Longrightarrow>
     sent (chat_route cfg ev st req) =
       [Res_json \<lparr> status = 400, body = JObj [(''errors'', JArr [validation_error])] \<rparr>] \<and>
     final (chat_route cfg ev st req) = st \<and>
     rateLimitCache (final (chat_route cfg ev st req)) (req_user req) = rateLimitCache st (req_user req) \<and>
     calls (chat_route cfg ev st req) = []"
  by (simp add: chat_route_invalid trim_blank)

theorem blank_message_leaves_rate_budget_witness:
  "list_all is_space [[CHR 0x20], [CHR 0xC2, CHR 0xA0], [CHR 0x09]] \<and>
   final (chat_route default_config demo_env demo_state
       \<lparr> req_user = ''u1'', req_message = [CHR 0x20, CHR 0xC2, CHR 0xA0, CHR 0x09] \<rparr>) = demo_state \<and>
   rateLimitCache (final (chat_route default_config demo_env demo_state
       \<lparr> req_user = ''u1'', req_message = [CHR 0x20, CHR 0xC2, CHR 0xA0, CHR 0x09] \<rparr>)) ''u1'' = None"
proof -
  let ?req = "\<lparr> req_user = ''u1'', req_message = [CHR 0x20, CHR 0xC2, CHR 0xA0, CHR 0x09] \<rparr>"
  have h: "list_all is_space [[CHR 0x20], [CHR 0xC2, CHR 0xA0], [CHR 0x09]]"
    by (simp add: is_space_def whitespace_def)
  have m: "req_message ?req = concat [[CHR 0x20], [CHR 0xC2, CHR 0xA0], [CHR 0x09]]"
    by simp
  from blank_message_leaves_rate_budget [OF h m, of default_config demo_env demo_state] h
  show ?thesis
    by (simp add: demo_state_def)
qed

subsection \<open>Failures before the stream\<close>



lemma same_request: "fallback_request p = primary_request p"
  by (simp add: fallback_request_def primary_request_def)

lemma chat_handler_primary_fails:
  "find_error ev = None \<Longrightarrow>
   axios_post ev HUGGINGFACE_API_URL (primary_request (build_prompt (recent_history (chats st) u) m))
     (request_options ev) = Inl primaryError \<Longrightarrow>
   chat_handler ev st u m =
     (case axios_post ev FALLBACK_API_URL (primary_request (build_prompt (recent_history (chats st) u) m))
             (request_options ev) of
        Inr fallbackResponse \<Rightarrow>
          relayed ev fallbackResponse u m st
            [(HUGGINGFACE_API_URL, primary_request (build_prompt (recent_history (chats st) u) m),
              request_options ev),
             (FALLBACK_API_URL, primary_request (build_prompt (recent_history (chats st) u) m),
              request_options ev)]
      | Inl fallbackError \<Rightarrow>
          \<lparr> final = st, headers = sse_headers, sent = replied (catch_error fallbackError),
            calls = [(HUGGINGFACE_API_URL, primary_request (build_prompt (recent_history (chats st) u) m),
                      request_options ev),
                     (FALLBACK_API_URL, primary_request (build_prompt (recent_history (chats st) u) m),
                      request_options ev)] \<rparr>)"
  by (simp add: chat_handler_def Let_def same_request)

lemma chat_handler_primary_streams:
  "find_error ev = None \<Longrightarrow>
   axios_post ev HUGGINGFACE_API_URL (primary_request (build_prompt (recent_history (chats st) u) m))
     (request_options ev) = Inr events \<Longrightarrow>
   chat_handler ev st u m =
     relayed ev events u m st
       [(HUGGINGFACE_API_URL, primary_request (build_prompt (recent_history (chats st) u) m),
         request_options ev)]"
  by (simp add: chat_handler_def Let_def)


lemma timeout_reply:
  "err_code e = Some ''ECONNABORTED'' \<Longrightarrow>
     replied (catch_error e) =
       [Res_json \<lparr> status = 504,
          body = JObj [(''error'', JStr ''Request timeout''),
                       (''message'', JStr ''AI service took too long to respond'')] \<rparr>]"
  by (simp add: catch_error_def replied_def)

lemma plain_error_reply:
  "err_code e \<noteq> Some ''ECONNABORTED'' \<Longrightarrow> err_response e = None \<Longrightarrow>
     replied (catch_error e) =
       [Res_json \<lparr> status = 500,
          body = JObj [(''error'', JStr ''Server error''), (''message'', JStr (err_message e))] \<rparr>]"
  by (simp add: catch_error_def replied_def)

text \<open>
  An error that carries a provider's response (any status outside 2xx) and is no
  timeout gets no reply at all: the attempt to serialise the response stream throws.
\<close>

lemma provider_response_gets_no_reply:
  "err_code e \<noteq> Some ''ECONNABORTED'' \<Longrightarrow> err_response e = Some s \<Longrightarrow>
     replied (catch_error e) = []"
  by (simp add: catch_error_def replied_def)

lemma relay_error_only:
  "sink (handleStreamResponse ev [Error x] [] u m st) =
     [Write_data (JObj [(''error'', JStr ''Stream error'')]), Res_end]"
  by (simp add: handleStreamResponse_def on_error_def)



lemma demo_recent_history:
  "recent_history (chats demo_state) ''u1'' =
     [\<lparr> user_id = ''u1'', message = ''Hey'', response = ''Hello!'', chat_timestamp = 1000 \<rparr>]"
  by (simp add: recent_history_def skip_limit_def sort_newest_first_def find_user_def demo_state_def)

lemma demo_prompt:
  "build_prompt (recent_history (chats demo_state) ''u1'') ''Hello'' =
     ''<s>[INST] Hey [/INST]'' @ [CHR 0x0A] @ ''Hello!'' @ [CHR 0x0A] @ ''<s>[INST] Hello [/INST]''"
  by (simp add: demo_recent_history build_prompt_def history_messages_def format_msg_def)

lemma url_distinct: "FALLBACK_API_URL \<noteq> HUGGINGFACE_API_URL"
  by (simp add: FALLBACK_API_URL_def HUGGINGFACE_API_URL_def)

lemma failing_env_simps:
  "find_error failing_env = None"
  "axios_post failing_env HUGGINGFACE_API_URL b opts = Inl provider_error"
  "axios_post failing_env FALLBACK_API_URL b opts = Inl timeout_error"
  "Date_now failing_env = 2000"
  by (simp_all add: failing_env_def demo_env_def url_distinct)

lemma stalled_env_simps:
  "find_error stalled_env = None"
  "axios_post stalled_env HUGGINGFACE_API_URL b opts = Inr [Error reset_error]"
  by (simp_all add: stalled_env_def demo_env_def)







subsection \<open>Fallback\<close>

text \<open>
  C5, as the code has it. When the request to the primary provider is rejected (there
  is no response stream, so nothing has been written), the handler calls the fallback
  provider with the same body, that is the same prompt and the same generation
  parameters, and the same options. If the fallback request is rejected too, the
  reply is made from the fallback's error alone and nothing is stored: status 504 for
  a timeout, status 500 with the fallback's message for an error without a provider
  response. If the fallback answers, its stream is the one relayed. When the primary
  provider answers with a stream, only the primary is called, whatever the stream does
  afterwards.
\<close>

theorem fallback_gets_same_request:
  "find_error ev = None \<Longrightarrow>
   p = build_prompt (recent_history (chats st) u) m \<Longrightarrow>
     (axios_post ev HUGGINGFACE_API_URL (primary_request p) (request_options ev) = Inl primaryError \<longrightarrow>
        calls (chat_handler ev st u m) =
          [(HUGGINGFACE_API_URL, primary_request p, request_options ev),
           (FALLBACK_API_URL, primary_request p, request_options ev)] \<and>
        (\<forall>e. axios_post ev FALLBACK_API_URL (primary_request p) (request_options ev) = Inl e \<and>
              err_code e = Some ''ECONNABORTED'' \<longrightarrow>
           sent (chat_handler ev st u m) =
             [Res_json \<lparr> status = 504,
                body = JObj [(''error'', JStr ''Request timeout''),
                             (''message'', JStr ''AI service took too long to respond'')] \<rparr>] \<and>
           final (chat_handler ev st u m) = st) \<and>
        (\<forall>e. axios_post ev FALLBACK_API_URL (primary_request p) (request_options ev) = Inl e \<and>
              err_code e \<noteq> Some ''ECONNABORTED'' \<and> err_response e = None \<longrightarrow>
           sent (chat_handler ev st u m) =
             [Res_json \<lparr> status = 500,
                body = JObj [(''error'', JStr ''Server error''), (''message'', JStr (err_message e))] \<rparr>] \<and>
           final (chat_handler ev st u m) = st) \<and>
        (\<forall>events. axios_post ev FALLBACK_API_URL (primary_request p) (request_options ev) = Inr events \<longrightarrow>
           sent (chat_handler ev st u m) = sink (handleStreamResponse ev events [] u m st))) \<and>
     (\<forall>events. axios_post ev HUGGINGFACE_API_URL (primary_request p) (request_options ev) = Inr events \<longrightarrow>
        calls (chat_handler ev st u m) = [(HUGGINGFACE_API_URL, primary_request p, request_options ev)] \<and>
        sent (chat_handler ev st u m) = sink (handleStreamResponse ev events [] u m st))"
proof -
  assume f: "find_error ev = None" and p: "p = build_prompt (recent_history (chats st) u) m"
  have a: "axios_post ev HUGGINGFACE_API_URL (primary_request p) (request_options ev) = Inl primaryError \<longrightarrow>
        calls (chat_handler ev st u m) =
          [(HUGGINGFACE_API_URL, primary_request p, request_options ev),
           (FALLBACK_API_URL, primary_request p, request_options ev)] \<and>
        (\<forall>e. axios_post ev FALLBACK_API_URL (primary_request p) (request_options ev) = Inl e \<and>
              err_code e = Some ''ECONNABORTED'' \<longrightarrow>
           sent (chat_handler ev st u m) =
             [Res_json \<lparr> status = 504,
                body = JObj [(''error'', JStr ''Request timeout''),
                             (''message'', JStr ''AI service took too long to respond'')] \<rparr>] \<and>
           final (chat_handler ev st u m) = st) \<and>
        (\<forall>e. axios_post ev FALLBACK_API_URL (primary_request p) (request_options ev) = Inl e \<and>
              err_code e \<noteq> Some ''ECONNABORTED'' \<and> err_response e = None \<longrightarrow>
           sent (chat_handler ev st u m) =
             [Res_json \<lparr> status = 500,
                body = JObj [(''error'', JStr ''Server error''), (''message'', JStr (err_message e))] \<rparr>] \<and>
           final (chat_handler ev st u m) = st) \<and>
        (\<forall>events. axios_post ev FALLBACK_API_URL (primary_request p) (request_options ev) = Inr events \<longrightarrow>
           sent (chat_handler ev st u m) = sink (handleStreamResponse ev events [] u m st))"
  proof
    assume r: "axios_post ev HUGGINGFACE_API_URL (primary_request p) (request_options ev) = Inl primaryError"
    from f r show "calls (chat_handler ev st u m) =
          [(HUGGINGFACE_API_URL, primary_request p, request_options ev),
           (FALLBACK_API_URL, primary_request p, request_options ev)] \<and>
        (\<forall>e. axios_post ev FALLBACK_API_URL (primary_request p) (request_options ev) = Inl e \<and>
              err_code e = Some ''ECONNABORTED'' \<longrightarrow>
           sent (chat_handler ev st u m) =
             [Res_json \<lparr> status = 504,
                body = JObj [(''error'', JStr ''Request timeout''),
                             (''message'', JStr ''AI service took too long to respond'')] \<rparr>] \<and>
           final (chat_handler ev st u m) = st) \<and>
        (\<forall>e. axios_post ev FALLBACK_API_URL (primary_request p) (request_options ev) = Inl e \<and>
              err_code e \<noteq> Some ''ECONNABORTED'' \<and> err_response e = None \<longrightarrow>
           sent (chat_handler ev st u m) =
             [Res_json \<lparr> status = 500,
                body = JObj [(''error'', JStr ''Server error''), (''message'', JStr (err_message e))] \<rparr>] \<and>
           final (chat_handler ev st u m) = st) \<and>
        (\<forall>events. axios_post ev FALLBACK_API_URL (primary_request p) (request_options ev) = Inr events \<longrightarrow>
           sent (chat_handler ev st u m) = sink (handleStreamResponse ev events [] u m st))"
      unfolding p
      by (auto simp add: chat_handler_primary_fails relayed_def Let_def timeout_reply plain_error_reply
          split: sum.splits)
  qed
  have b: "\<forall>events. axios_post ev HUGGINGFACE_API_URL (primary_request p) (request_options ev) = Inr events \<longrightarrow>
        calls (chat_handler ev st u m) = [(HUGGINGFACE_API_URL, primary_request p, request_options ev)] \<and>
        sent (chat_handler ev st u m) = sink (handleStreamResponse ev events [] u m st)"
    using f unfolding p
    by (simp add: chat_handler_primary_streams relayed_def Let_def)
  from a b show ?thesis
    by blast
qed

theorem fallback_gets_same_request_witness:
  "find_error failing_env = None \<and>
   axios_post failing_env HUGGINGFACE_API_URL
     (primary_request (build_prompt (recent_history (chats demo_state) ''u1'') ''Hello''))
     (request_options failing_env) = Inl provider_error \<and>
   calls (chat_handler failing_env demo_state ''u1'' ''Hello'') =
     [(HUGGINGFACE_API_URL,
       \<lparr> inputs = ''<s>[INST] Hey [/INST]'' @ [CHR 0x0A] @ ''Hello!'' @ [CHR 0x0A] @ ''<s>[INST] Hello [/INST]'',
         parameters = \<lparr> max_new_tokens = 1000, temperature = 7 / 10, top_p = 95 / 100,
                        return_full_text = False, stream = True \<rparr> \<rparr>,
       \<lparr> Authorization = ''Bearer hf_key'', responseType = ''stream'' \<rparr>),
      (FALLBACK_API_URL,
       \<lparr> inputs = ''<s>[INST] Hey [/INST]'' @ [CHR 0x0A] @ ''Hello!'' @ [CHR 0x0A] @ ''<s>[INST] Hello [/INST]'',
         parameters = \<lparr> max_new_tokens = 1000, temperature = 7 / 10, top_p = 95 / 100,
                        return_full_text = False, stream = True \<rparr> \<rparr>,
       \<lparr> Authorization = ''Bearer hf_key'', responseType = ''stream'' \<rparr>)] \<and>
   sent (chat_handler failing_env demo_state ''u1'' ''Hello'') =
     [Res_json \<lparr> status = 504,
        body = JObj [(''error'', JStr ''Request timeout''),
                     (''message'', JStr ''AI service took too long to respond'')] \<rparr>] \<and>
   final (chat_handler failing_env demo_state ''u1'' ''Hello'') = demo_state"
proof -
  let ?p = "build_prompt (recent_history (chats demo_state) ''u1'') ''Hello''"
  have h1: "find_error failing_env = None"
    by (simp add: failing_env_simps)
  have h2: "axios_post failing_env HUGGINGFACE_API_URL (primary_request ?p) (request_options failing_env)
      = Inl provider_error"
    by (simp add: failing_env_simps)
  have h3: "axios_post failing_env FALLBACK_API_URL (primary_request ?p) (request_options failing_env)
      = Inl timeout_error \<and> err_code timeout_error = Some ''ECONNABORTED''"
    by (simp add: failing_env_simps timeout_error_def)
  have opts: "request_options failing_env = \<lparr> Authorization = ''Bearer hf_key'', responseType = ''stream'' \<rparr>"
    by (simp add: request_options_def failing_env_def demo_env_def)
  from fallback_gets_same_request [where ev = failing_env and st = demo_state and u = "''u1''"
      and m = "''Hello''" and p = ?p and primaryError = provider_error, OF h1 refl] h2 h3
  have "calls (chat_handler failing_env demo_state ''u1'' ''Hello'') =
          [(HUGGINGFACE_API_URL, primary_request ?p, request_options failing_env),
           (FALLBACK_API_URL, primary_request ?p, request_options failing_env)] \<and>
        sent (chat_handler failing_env demo_state ''u1'' ''Hello'') =
          [Res_json \<lparr> status = 504,
             body = JObj [(''error'', JStr ''Request timeout''),
                          (''message'', JStr ''AI service took too long to respond'')] \<rparr>] \<and>
        final (chat_handler failing_env demo_state ''u1'' ''Hello'') = demo_state"
    by blast
  with h1 h2 opts show ?thesis
    by (simp add: demo_prompt primary_request_def)
qed

text \<open>
  The claim C5 as stated fails: the primary provider answers, the connection is lost
  before any data arrives, and the fallback provider is not called; the caller gets
  the stream-error event.
\<close>

theorem no_fallback_for_failed_stream:
  "axios_post stalled_env HUGGINGFACE_API_URL
     (primary_request (build_prompt (recent_history (chats demo_state) ''u1'') ''Hello''))
     (request_options stalled_env) = Inr [Error reset_error] \<and>
   map fst (calls (chat_handler stalled_env demo_state ''u1'' ''Hello'')) = [HUGGINGFACE_API_URL] \<and>
   sent (chat_handler stalled_env demo_state ''u1'' ''Hello'') =
     [Write_data (JObj [(''error'', JStr ''Stream error'')]), Res_end]"
  by (simp add: stalled_env_simps chat_handler_primary_streams relayed_def relay_error_only)

section \<open>The rate governor\<close>

text \<open>
  Within a live window (an entry no older than the window) a request is admitted while
  the count is below the maximum and denied with status 429 once it has reached it; the
  advertised wait is the ceiling of the remaining milliseconds over 1000, positive
  strictly before the window's end. An entry older than the window is purged, and the
  request then opens a new window. Counts never exceed a positive maximum, and a run
  of requests inside one window is admitted as long as the maximum is not passed.
\<close>

lemma ceil_div_ceiling: "ceil_div x k = \<lceil>real_of_int x / real_of_int k\<rceil>"
  by (simp add: ceil_div_def ceiling_divide_eq_div)

lemma ceil_div_pos: "0 < k \<Longrightarrow> 0 < x \<Longrightarrow> 0 < ceil_div x k"
  by (simp add: ceil_div_ceiling)

lemma ceil_div_nonpos: "0 < k \<Longrightarrow> x \<le> 0 \<Longrightarrow> ceil_div x k \<le> 0"
  by (simp add: ceil_div_ceiling ceiling_le_zero divide_nonpos_pos)

lemma purge_live:
  "m u = Some e \<Longrightarrow> now - timestamp e \<le> RATE_LIMIT_WINDOW cfg \<Longrightarrow> purge cfg now m u = Some e"
  by (simp add: purge_def)

lemma purge_stale:
  "m u = Some e \<Longrightarrow> RATE_LIMIT_WINDOW cfg < now - timestamp e \<Longrightarrow> purge cfg now m u = None"
  by (simp add: purge_def)

lemma purge_None: "m u = None \<Longrightarrow> purge cfg now m u = None"
  by (simp add: purge_def)

lemma purge_Some: "purge cfg now m u = Some e \<Longrightarrow> m u = Some e \<and> now - timestamp e \<le> RATE_LIMIT_WINDOW cfg"
  by (auto simp add: purge_def split: option.splits if_splits)

lemma rateLimit_admits:
  "m u = Some e \<Longrightarrow> now - timestamp e \<le> RATE_LIMIT_WINDOW cfg \<Longrightarrow> count e < MAX_REQUESTS cfg \<Longrightarrow>
     rateLimit cfg now u m = ((purge cfg now m)(u \<mapsto> e\<lparr> count := count e + 1 \<rparr>), None)"
  by (simp add: rateLimit_def purge_live)

lemma rateLimit_fresh:
  "purge cfg now m u = None \<Longrightarrow>
     rateLimit cfg now u m = ((purge cfg now m)(u \<mapsto> \<lparr> count = 1, timestamp = now \<rparr>), None)"
  by (simp add: rateLimit_def)

lemma rateLimit_denies:
  "m u = Some e \<Longrightarrow> now - timestamp e \<le> RATE_LIMIT_WINDOW cfg \<Longrightarrow> MAX_REQUESTS cfg \<le> count e \<Longrightarrow>
     rateLimit cfg now u m =
       (purge cfg now m, Some \<lparr> status = 429, body = rate_limit_body (retry_after cfg now e) \<rparr>)"
  by (simp add: rateLimit_def purge_live)

lemma retry_after_positive:
  "now - timestamp e < RATE_LIMIT_WINDOW cfg \<Longrightarrow> 0 < retry_after cfg now e"
  by (simp add: retry_after_def ceil_div_pos)

lemma retry_after_boundary:
  "now - timestamp e = RATE_LIMIT_WINDOW cfg \<Longrightarrow> retry_after cfg now e = 0"
  by (simp add: retry_after_def ceil_div_def)

lemma counts_bounded_purge: "counts_bounded cfg m \<Longrightarrow> counts_bounded cfg (purge cfg now m)"
  by (auto simp add: counts_bounded_def dest: purge_Some)

lemma counts_bounded_rateLimit:
  "1 \<le> MAX_REQUESTS cfg \<Longrightarrow> counts_bounded cfg m \<Longrightarrow> counts_bounded cfg (fst (rateLimit cfg now u m))"
  using counts_bounded_purge [of cfg m now]
  by (auto simp add: rateLimit_def counts_bounded_def Let_def split: option.splits)

lemma counts_bounded_admissions:
  "1 \<le> MAX_REQUESTS cfg \<Longrightarrow> counts_bounded cfg m \<Longrightarrow> counts_bounded cfg (fst (admissions cfg m rs))"
proof (induction rs arbitrary: m)
  case Nil
  then show ?case by simp
next
  case (Cons r rs)
  from Cons.prems have "counts_bounded cfg (fst (rateLimit cfg (fst r) (snd r) m))"
    by (rule counts_bounded_rateLimit)
  from Cons.IH [OF Cons.prems(1) this] show ?case
    by (simp add: Let_def)
qed

lemma rateLimit_other_user:
  "v \<noteq> u \<Longrightarrow> m u = Some e \<Longrightarrow> now - timestamp e \<le> RATE_LIMIT_WINDOW cfg \<Longrightarrow>
     fst (rateLimit cfg now v m) u = Some e"
  by (simp add: rateLimit_def Let_def purge_live split: option.splits)

lemma run_in_window:
  "m u = Some e \<Longrightarrow> list_all (\<lambda>r. fst r - timestamp e \<le> RATE_LIMIT_WINDOW cfg) rs \<Longrightarrow>
   count e + int (length (filter (\<lambda>r. snd r = u) rs)) \<le> MAX_REQUESTS cfg \<Longrightarrow>
     list_all (\<lambda>(r, a). snd r = u \<longrightarrow> a = None) (zip rs (snd (admissions cfg m rs))) \<and>
     fst (admissions cfg m rs) u = Some (e\<lparr> count := count e + int (length (filter (\<lambda>r. snd r = u) rs)) \<rparr>)"
proof (induction rs arbitrary: m e)
  case Nil
  then show ?case by simp
next
  case (Cons r rs)
  show ?case
  proof (cases "snd r = u")
    case True
    let ?e = "e\<lparr> count := count e + 1 \<rparr>"
    let ?m = "(purge cfg (fst r) m)(u \<mapsto> ?e)"
    from Cons.prems True have step: "rateLimit cfg (fst r) u m = (?m, None)"
      by (simp add: rateLimit_admits)
    have "?m u = Some ?e" by simp
    moreover from Cons.prems have "list_all (\<lambda>r. fst r - timestamp ?e \<le> RATE_LIMIT_WINDOW cfg) rs" by simp
    moreover from Cons.prems True
    have "count ?e + int (length (filter (\<lambda>r. snd r = u) rs)) \<le> MAX_REQUESTS cfg" by simp
    ultimately have "list_all (\<lambda>(r, a). snd r = u \<longrightarrow> a = None) (zip rs (snd (admissions cfg ?m rs))) \<and>
       fst (admissions cfg ?m rs) u = Some (?e\<lparr> count := count ?e + int (length (filter (\<lambda>r. snd r = u) rs)) \<rparr>)"
      by (rule Cons.IH)
    with True show ?thesis
      by (simp add: step Let_def add.assoc)
  next
    case False
    let ?m = "fst (rateLimit cfg (fst r) (snd r) m)"
    from Cons.prems False have "?m u = Some e"
      by (simp add: rateLimit_other_user)
    moreover from Cons.prems have "list_all (\<lambda>r. fst r - timestamp e \<le> RATE_LIMIT_WINDOW cfg) rs" by simp
    moreover from Cons.prems False
    have "count e + int (length (filter (\<lambda>r. snd r = u) rs)) \<le> MAX_REQUESTS cfg" by simp
    ultimately have "list_all (\<lambda>(r, a). snd r = u \<longrightarrow> a = None) (zip rs (snd (admissions cfg ?m rs))) \<and>
       fst (admissions cfg ?m rs) u = Some (e\<lparr> count := count e + int (length (filter (\<lambda>r. snd r = u) rs)) \<rparr>)"
      by (rule Cons.IH)
    with False show ?thesis
      by (simp add: Let_def)
  qed
qed

lemma rateLimit_stale_is_absent:
  "m u = Some e \<Longrightarrow> RATE_LIMIT_WINDOW cfg < now - timestamp e \<Longrightarrow>
     rateLimit cfg now u m = ((purge cfg now m)(u \<mapsto> \<lparr> count = 1, timestamp = now \<rparr>), None)"
  by (simp add: rateLimit_fresh purge_stale)

lemma denied_after_maximum:
  "m u = Some e \<Longrightarrow> now - timestamp e < RATE_LIMIT_WINDOW cfg \<Longrightarrow> count e = MAX_REQUESTS cfg \<Longrightarrow>
     snd (rateLimit cfg now u m) =
       Some \<lparr> status = 429, body = rate_limit_body (retry_after cfg now e) \<rparr> \<and>
     0 < retry_after cfg now e \<and>
     retry_after cfg now e = \<lceil>real_of_int (RATE_LIMIT_WINDOW cfg - (now - timestamp e)) / 1000\<rceil>"
  by (simp add: rateLimit_denies retry_after_positive) (simp add: retry_after_def ceil_div_ceiling)

text \<open>
  C4. At the last millisecond of the window the entry is still live (it is purged only
  when older than the window), so a user at the maximum is denied, but the wait
  advertised is zero seconds. The user who retries at once is denied again.
\<close>

theorem denied_at_window_end_with_zero_wait:
  "rateLimit default_config 901000 ''u1'' (rateLimitCache busy_state) =
     (rateLimitCache busy_state,
      Some \<lparr> status = 429,
             body = JObj [(''error'', JStr ''Rate limit exceeded''),
                          (''message'', JStr ''Please wait 0 seconds before trying again'')] \<rparr>) \<and>
   snd (rateLimit default_config 901000 ''u1''
          (fst (rateLimit default_config 901000 ''u1'' (rateLimitCache busy_state)))) =
     Some \<lparr> status = 429,
            body = JObj [(''error'', JStr ''Rate limit exceeded''),
                         (''message'', JStr ''Please wait 0 seconds before trying again'')] \<rparr>"
proof -
  have "rateLimit default_config 901000 ''u1'' (rateLimitCache busy_state) =
     (rateLimitCache busy_state,
      Some \<lparr> status = 429,
             body = JObj [(''error'', JStr ''Rate limit exceeded''),
                          (''message'', JStr ''Please wait 0 seconds before trying again'')] \<rparr>)"
    by (auto simp add: rateLimit_def purge_def default_config_def config_of_env_def env_or_def
        busy_state_def demo_state_def retry_after_def ceil_div_def rate_limit_body_def
        show_int_def show_nat.simps digit_char_def fun_eq_iff)
  then show ?thesis by simp
qed

section \<open>Prompt assembly\<close>

lemma format_history:
  "map format_msg (history_messages h) = concat (map (\<lambda>c. [user_turn (message c), response c]) h)"
  by (induction h) (simp_all add: history_messages_def format_msg_def user_turn_def)

lemma build_prompt_turns:
  "build_prompt h m = join [CHR 0x0A] (concat (map (\<lambda>c. [user_turn (message c), response c]) h) @ [user_turn m])"
  by (simp add: build_prompt_def format_history) (simp add: format_msg_def user_turn_def)

lemma sorted_newest_first: "newest_first (sort_newest_first cs)"
proof -
  have "sorted (map (\<lambda>c. - chat_timestamp c) (sort_key (\<lambda>c. - chat_timestamp c) cs))"
    by (rule sorted_sort_key)
  then show ?thesis
    by (simp add: newest_first_def sort_newest_first_def sorted_map)
qed

lemma set_sort_newest_first: "set (sort_newest_first cs) = set cs"
  by (simp add: sort_newest_first_def)

lemma length_sort_newest_first: "length (sort_newest_first cs) = length cs"
  by (simp add: sort_newest_first_def)

lemma newest_first_take: "newest_first cs \<Longrightarrow> newest_first (take n cs)"
  by (simp add: newest_first_def sorted_wrt_take)

lemma newest_first_drop: "newest_first cs \<Longrightarrow> newest_first (drop n cs)"
  by (simp add: newest_first_def sorted_wrt_drop)

lemma newest_first_split:
  assumes "newest_first cs" and "d \<in> set (take n cs)" and "c \<in> set (drop n cs)"
  shows "chat_timestamp c \<le> chat_timestamp d"
proof -
  from assms(1) have "sorted_wrt (\<lambda>a b. chat_timestamp b \<le> chat_timestamp a) (take n cs @ drop n cs)"
    by (simp add: newest_first_def)
  with assms(2,3) show ?thesis
    unfolding sorted_wrt_append by blast
qed

lemma recent_history_take: "recent_history db u = take 5 (sort_newest_first (find_user db u))"
  by (simp add: recent_history_def skip_limit_def)

lemma older_not_recent:
  assumes "c \<in> set db" "user_id c = u" "c \<notin> set (recent_history db u)" "d \<in> set (recent_history db u)"
  shows "chat_timestamp c \<le> chat_timestamp d"
proof -
  let ?xs = "sort_newest_first (find_user db u)"
  from assms(1,2) have "c \<in> set ?xs"
    by (simp add: set_sort_newest_first find_user_def)
  then have "c \<in> set (take 5 ?xs @ drop 5 ?xs)" by simp
  with assms(3) have "c \<in> set (drop 5 ?xs)"
    unfolding set_append recent_history_take by blast
  with sorted_newest_first [of "find_user db u"] assms(4) show ?thesis
    by (auto simp add: recent_history_take intro: newest_first_split)
qed

text \<open>
  C6. The prompt is built from the five newest turns of the user at most, newest first
  as fetched: every fetched turn is one of the user's, and a turn of the user that was
  not fetched is no newer than any fetched one. Each turn gives a user turn (the stored
  message between the instruction markers) followed by the stored response as it is,
  the new message is the last user turn, and the turns are joined by line feeds. With
  no stored turn the prompt is the new message's turn alone. The assembly is a total
  function of the fetched turns and the message.
\<close>

theorem prompt_from_recent_turns:
  "build_prompt (recent_history db u) m =
     join [CHR 0x0A] (concat (map (\<lambda>c. [user_turn (message c), response c]) (recent_history db u)) @ [user_turn m]) \<and>
   recent_history db u = take 5 (sort_newest_first (find_user db u)) \<and>
   length (recent_history db u) \<le> 5 \<and>
   newest_first (recent_history db u) \<and>
   (\<forall>c\<in>set (recent_history db u). c \<in> set db \<and> user_id c = u) \<and>
   (\<forall>c\<in>set db. user_id c = u \<and> c \<notin> set (recent_history db u) \<longrightarrow>
      (\<forall>d\<in>set (recent_history db u). chat_timestamp c \<le> chat_timestamp d)) \<and>
   (find_user db u = [] \<longrightarrow> build_prompt (recent_history db u) m = user_turn m)"
proof (intro conjI)
  show "build_prompt (recent_history db u) m =
     join [CHR 0x0A] (concat (map (\<lambda>c. [user_turn (message c), response c]) (recent_history db u)) @ [user_turn m])"
    by (rule build_prompt_turns)
  show "recent_history db u = take 5 (sort_newest_first (find_user db u))"
    by (rule recent_history_take)
  show "length (recent_history db u) \<le> 5"
    by (simp add: recent_history_take)
  show "newest_first (recent_history db u)"
    by (simp add: recent_history_take newest_first_take sorted_newest_first)
  show "\<forall>c\<in>set (recent_history db u). c \<in> set db \<and> user_id c = u"
  proof
    fix c assume "c \<in> set (recent_history db u)"
    then have "c \<in> set (sort_newest_first (find_user db u))"
      unfolding recent_history_take by (rule in_set_takeD)
    then show "c \<in> set db \<and> user_id c = u"
      by (simp add: set_sort_newest_first find_user_def)
  qed
  show "\<forall>c\<in>set db. user_id c = u \<and> c \<notin> set (recent_history db u) \<longrightarrow>
      (\<forall>d\<in>set (recent_history db u). chat_timestamp c \<le> chat_timestamp d)"
    using older_not_recent by blast
  show "find_user db u = [] \<longrightarrow> build_prompt (recent_history db u) m = user_turn m"
    by (simp add: build_prompt_turns recent_history_take sort_newest_first_def)
qed


lemma long_recent:
  "take 5 (sort_newest_first (find_user long_history ''u1'')) =
     [\<lparr> user_id = ''u1'', message = ''m6'', response = ''r6'', chat_timestamp = 60 \<rparr>,
      \<lparr> user_id = ''u1'', message = ''m5'', response = ''r5'', chat_timestamp = 50 \<rparr>,
      \<lparr> user_id = ''u1'', message = ''m4'', response = ''r4'', chat_timestamp = 40 \<rparr>,
      \<lparr> user_id = ''u1'', message = ''m3'', response = ''r3'', chat_timestamp = 30 \<rparr>,
      \<lparr> user_id = ''u1'', message = ''m2'', response = ''r2'', chat_timestamp = 20 \<rparr>]"
  by (simp add: long_history_def find_user_def sort_newest_first_def)

theorem prompt_from_recent_turns_witness:
  "build_prompt (recent_history (chats demo_state) ''u1'') ''Hello'' =
     ''<s>[INST] Hey [/INST]'' @ [CHR 0x0A] @ ''Hello!'' @ [CHR 0x0A] @ ''<s>[INST] Hello [/INST]'' \<and>
   find_user (chats demo_state) ''u2'' = [] \<and>
   build_prompt (recent_history (chats demo_state) ''u2'') ''Hello'' = ''<s>[INST] Hello [/INST]'' \<and>
   map chat_timestamp (recent_history long_history ''u1'') = [60, 50, 40, 30, 20]"
proof -
  have none: "find_user (chats demo_state) ''u2'' = []"
    by (simp add: find_user_def demo_state_def)
  have "build_prompt (recent_history (chats demo_state) ''u1'') ''Hello'' =
      join [CHR 0x0A] (concat (map (\<lambda>c. [user_turn (message c), response c])
        (recent_history (chats demo_state) ''u1'')) @ [user_turn ''Hello''])"
    using prompt_from_recent_turns [of "chats demo_state" "''u1''" "''Hello''"] by blast
  then have a: "build_prompt (recent_history (chats demo_state) ''u1'') ''Hello'' =
     ''<s>[INST] Hey [/INST]'' @ [CHR 0x0A] @ ''Hello!'' @ [CHR 0x0A] @ ''<s>[INST] Hello [/INST]''"
    by (simp add: demo_recent_history user_turn_def)
  have "build_prompt (recent_history (chats demo_state) ''u2'') ''Hello'' = user_turn ''Hello''"
    using prompt_from_recent_turns [of "chats demo_state" "''u2''" "''Hello''"] none by blast
  then have b: "build_prompt (recent_history (chats demo_state) ''u2'') ''Hello'' = ''<s>[INST] Hello [/INST]''"
    by (simp add: user_turn_def)
  from prompt_from_recent_turns [of long_history "''u1''" "''Hello''"]
  have "recent_history long_history ''u1'' = take 5 (sort_newest_first (find_user long_history ''u1''))"
    by blast
  then have c: "map chat_timestamp (recent_history long_history ''u1'') = [60, 50, 40, 30, 20]"
    by (simp add: long_recent)
  from a none b c show ?thesis
    by blast
qed

section \<open>Chat history\<close>

lemma count_list_insort:
  "count_list (insort_key f x xs) c = count_list (x # xs) c"
  by (induction xs) auto

lemma count_list_sort_key: "count_list (sort_key f xs) c = count_list xs c"
  by (induction xs) (simp_all add: count_list_insort)

lemma count_sort_newest_first: "count_list (sort_newest_first cs) c = count_list cs c"
  by (simp add: sort_newest_first_def count_list_sort_key)

lemma digit_of_digit_char: "d < 10 \<Longrightarrow> digit_of (digit_char d) = d"
proof -
  assume "d < 10"
  then have "d \<in> {0, 1, 2, 3, 4, 5, 6, 7, 8, 9}" by auto
  then show ?thesis by (auto simp add: digit_char_def digit_of_def)
qed

lemma is_digit_digit_char: "d < 10 \<Longrightarrow> is_digit (digit_char d)"
proof -
  assume "d < 10"
  then have "d \<in> {0, 1, 2, 3, 4, 5, 6, 7, 8, 9}" by auto
  then show ?thesis by (auto simp add: digit_char_def is_digit_def)
qed

lemma show_nat_digits:
  "show_nat n \<noteq> [] \<and> list_all is_digit (show_nat n) \<and>
   foldl (\<lambda>a c. 10 * a + digit_of c) 0 (show_nat n) = n"
proof (induction n rule: show_nat.induct)
  case (1 n)
  show ?case
  proof (cases "n < 10")
    case True
    then show ?thesis
      by (subst (1 2 3) show_nat.simps) (simp add: is_digit_digit_char digit_of_digit_char)
  next
    case False
    with 1 have IH: "show_nat (n div 10) \<noteq> [] \<and> list_all is_digit (show_nat (n div 10)) \<and>
      foldl (\<lambda>a c. 10 * a + digit_of c) 0 (show_nat (n div 10)) = n div 10"
      by simp
    have m: "n mod 10 < 10" by simp
    from False IH show ?thesis
      by (subst (1 2 3) show_nat.simps)
         (simp add: is_digit_digit_char [OF m] digit_of_digit_char [OF m])
  qed
qed

lemma digits_value_show_nat: "digits_value (show_nat n) = Some n"
  using show_nat_digits [of n] by (simp add: digits_value_def)

lemma number_of_simps:
  "number_of d None = Some d"
  "number_of d (Some (show_nat n)) = Some n"
  by (simp_all add: number_of_def digits_value_show_nat)

lemma history_miss_ok:
  "find_error ev = None \<Longrightarrow> number_of default_page page_q = Some page \<Longrightarrow> number_of default_limit limit_q = Some limit \<Longrightarrow>
   0 < page \<Longrightarrow>
     history_miss ev st u page_q limit_q =
       Some (st\<lparr> redis := setCache (redis_down ev) (redis st)
                        (cacheKey u (text_of default_page page_q) (text_of default_limit limit_q))
                        (history_json (query_page (chats st) u page limit (json_of default_page page_q)))
                        (Some 300) \<rparr>,
             \<lparr> status = 200,
               body = history_json (query_page (chats st) u page limit (json_of default_page page_q)) \<rparr>)"
  by (simp add: history_miss_def Let_def mult_less_0_iff)

lemma getHistory_miss:
  "getCache (redis_down ev) (redis st) (cacheKey u (text_of default_page page_q) (text_of default_limit limit_q)) = None \<Longrightarrow>
     getHistory ev st u page_q limit_q = history_miss ev st u page_q limit_q"
  by (simp add: getHistory_def)

lemma history_json_positive:
  "0 < limit \<Longrightarrow>
     history_json (query_page db u page limit v) =
       JObj [(''chats'',
              JArr (map (\<lambda>c. JObj [(''user_id'', JStr (user_id c)), (''message'', JStr (message c)),
                                     (''response'', JStr (response c)),
                                     (''timestamp'', JNum (of_int (chat_timestamp c)))])
                     (take limit (drop ((page - 1) * limit)
                        (sort_newest_first (filter (\<lambda>c. user_id c = u) db)))))),
             (''totalPages'',
              JNum (of_int \<lceil>real (length (filter (\<lambda>c. user_id c = u) db)) / real limit\<rceil>)),
             (''currentPage'', v)]"
  by (simp add: history_json_def query_page_def skip_limit_def total_pages_def countDocuments_def
      ceil_div_ceiling find_user_def chat_json_def)

text \<open>
  C7. On a cache miss, with the store answering and page and limit positive numbers
  (a supplied text is a decimal numeral, an absent page is 1 and an absent limit is
  20), the reply is 200 with the fields \<^verbatim>\<open>chats\<close>, \<^verbatim>\<open>totalPages\<close> and
  \<^verbatim>\<open>currentPage\<close>. The chats are the user's turns ordered newest first, with the
  first \<open>(page - 1) * limit\<close> skipped and at most \<open>limit\<close> taken; the ordered list holds
  exactly the user's turns. \<^verbatim>\<open>totalPages\<close> is the ceiling of the number of the user's
  turns over the limit, and \<^verbatim>\<open>currentPage\<close> is the page as it came: the supplied text,
  or the number 1. The reply is stored under the key made of the user and the texts of
  page and limit, with an expiry of 300 seconds (when the cache client works), and
  the collection is not changed.
\<close>

theorem history_page_on_miss:
  assumes "find_error ev = None"
    and "number_of default_page page_q = Some page" and "number_of default_limit limit_q = Some limit"
    and "0 < page" and "0 < limit"
    and "getCache (redis_down ev) (redis st)
           (''chat_history:'' @ u @ '':'' @ text_of default_page page_q @ '':'' @ text_of default_limit limit_q) = None"
  shows
    "let mine = filter (\<lambda>c. user_id c = u) (chats st);
         ordered = sort_newest_first mine;
         reply =
           \<lparr> status = 200,
             body = JObj
               [(''chats'',
                 JArr (map (\<lambda>c. JObj [(''user_id'', JStr (user_id c)), (''message'', JStr (message c)),
                                        (''response'', JStr (response c)),
                                        (''timestamp'', JNum (of_int (chat_timestamp c)))])
                        (take limit (drop ((page - 1) * limit) ordered)))),
                (''totalPages'', JNum (of_int \<lceil>real (length mine) / real limit\<rceil>)),
                (''currentPage'', json_of default_page page_q)] \<rparr>
     in (\<exists>st'. getHistory ev st u page_q limit_q = Some (st', reply) \<and>
               chats st' = chats st \<and>
               (\<not> redis_down ev \<longrightarrow>
                  redis st' (''chat_history:'' @ u @ '':'' @ text_of default_page page_q @ '':'' @ text_of default_limit limit_q) =
                    Some \<lparr> stored = body reply, expiry = 300 \<rparr>)) \<and>
        newest_first ordered \<and>
        (\<forall>c. count_list ordered c = count_list mine c) \<and>
        length (take limit (drop ((page - 1) * limit) ordered)) \<le> limit \<and>
        number_of default_page None = Some 1 \<and> text_of default_page None = ''1'' \<and>
        json_of default_page None = JNum 1 \<and>
        number_of default_limit None = Some 20 \<and> text_of default_limit None = ''20'' \<and>
        (\<forall>d s. text_of d (Some s) = s \<and> json_of d (Some s) = JStr s) \<and>
        (\<forall>d n. number_of d (Some (show_nat n)) = Some n)"
proof -
  let ?key = "''chat_history:'' @ u @ '':'' @ text_of default_page page_q @ '':'' @ text_of default_limit limit_q"
  let ?body = "history_json (query_page (chats st) u page limit (json_of default_page page_q))"
  from assms(6) have miss: "getCache (redis_down ev) (redis st)
      (cacheKey u (text_of default_page page_q) (text_of default_limit limit_q)) = None"
    by (simp add: cacheKey_def)
  have eq: "getHistory ev st u page_q limit_q =
      Some (st\<lparr> redis := setCache (redis_down ev) (redis st) ?key ?body (Some 300) \<rparr>,
            \<lparr> status = 200, body = ?body \<rparr>)"
    using assms(1-4) miss
    by (simp add: getHistory_miss history_miss_ok) (simp add: cacheKey_def)
  have defaults: "number_of default_page None = Some 1 \<and> text_of default_page None = ''1'' \<and> json_of default_page None = JNum 1 \<and>
        number_of default_limit None = Some 20 \<and> text_of default_limit None = ''20''"
    by (simp add: number_of_def text_of_def json_of_def show_nat.simps digit_char_def
        default_page_def default_limit_def)
  have supplied: "(\<forall>d s. text_of d (Some s) = s \<and> json_of d (Some s) = JStr s) \<and>
        (\<forall>d n. number_of d (Some (show_nat n)) = Some n)"
    by (simp add: text_of_def json_of_def number_of_simps)
  from defaults supplied show ?thesis
    unfolding Let_def eq history_json_positive [OF assms(5)]
    by (simp add: sorted_newest_first count_sort_newest_first setCache_def)
qed

lemma paged_page:
  "take 4 (drop 4 (sort_newest_first (filter (\<lambda>c. user_id c = ''u1'') long_history))) =
     [\<lparr> user_id = ''u1'', message = ''m2'', response = ''r2'', chat_timestamp = 20 \<rparr>,
      \<lparr> user_id = ''u1'', message = ''m1'', response = ''r1'', chat_timestamp = 10 \<rparr>]"
  by (simp add: long_history_def sort_newest_first_def)

lemma paged_count: "length (filter (\<lambda>c. user_id c = ''u1'') long_history) = 6"
  by (simp add: long_history_def)

lemma paged_numbers:
  "number_of default_page (Some ''2'') = Some 2" "number_of default_limit (Some ''4'') = Some 4"
  "text_of default_page (Some ''2'') = ''2''" "text_of default_limit (Some ''4'') = ''4''" "json_of default_page (Some ''2'') = JStr ''2''"
  by (simp_all add: number_of_def digits_value_def is_digit_def digit_of_def text_of_def json_of_def)

theorem history_page_on_miss_witness:
  "find_error demo_env = None \<and>
   number_of default_page (Some ''2'') = Some 2 \<and> number_of default_limit (Some ''4'') = Some 4 \<and>
   getCache (redis_down demo_env) (redis paged_state) ''chat_history:u1:2:4'' = None \<and>
   map_option snd (getHistory demo_env paged_state ''u1'' (Some ''2'') (Some ''4'')) =
     Some \<lparr> status = 200,
            body = JObj
              [(''chats'',
                JArr [JObj [(''user_id'', JStr ''u1''), (''message'', JStr ''m2''),
                            (''response'', JStr ''r2''), (''timestamp'', JNum 20)],
                      JObj [(''user_id'', JStr ''u1''), (''message'', JStr ''m1''),
                            (''response'', JStr ''r1''), (''timestamp'', JNum 10)]]),
               (''totalPages'', JNum 2),
               (''currentPage'', JStr ''2'')] \<rparr> \<and>
   map_option (\<lambda>r. map_option expiry (redis (fst r) ''chat_history:u1:2:4''))
     (getHistory demo_env paged_state ''u1'' (Some ''2'') (Some ''4'')) = Some (Some 300)"
proof -
  have h1: "find_error demo_env = None"
    by (simp add: demo_env_def)
  have h2: "number_of default_page (Some ''2'') = Some 2" and h3: "number_of default_limit (Some ''4'') = Some 4"
    by (simp_all add: paged_numbers)
  have h4: "(0::nat) < 2" and h5: "(0::nat) < 4"
    by simp_all
  have h6: "getCache (redis_down demo_env) (redis paged_state)
      (''chat_history:'' @ ''u1'' @ '':'' @ text_of default_page (Some ''2'') @ '':'' @ text_of default_limit (Some ''4'')) = None"
    by (simp add: getCache_def paged_state_def demo_state_def)
  have up: "\<not> redis_down demo_env"
    by (simp add: demo_env_def)
  have ch: "chats paged_state = long_history"
    by (simp add: paged_state_def)
  have tp: "\<lceil>real (length (filter (\<lambda>c. user_id c = ''u1'') long_history)) / 4\<rceil> = 2"
    by (simp add: paged_count ceiling_eq_iff)
  from history_page_on_miss [OF h1 h2 h3 h4 h5 h6] up
  obtain st' where r: "getHistory demo_env paged_state ''u1'' (Some ''2'') (Some ''4'') =
      Some (st', \<lparr> status = 200,
            body = JObj
              [(''chats'',
                JArr [JObj [(''user_id'', JStr ''u1''), (''message'', JStr ''m2''),
                            (''response'', JStr ''r2''), (''timestamp'', JNum 20)],
                      JObj [(''user_id'', JStr ''u1''), (''message'', JStr ''m1''),
                            (''response'', JStr ''r1''), (''timestamp'', JNum 10)]]),
               (''totalPages'', JNum 2),
               (''currentPage'', JStr ''2'')] \<rparr>)"
    and k: "map_option expiry (redis st' ''chat_history:u1:2:4'') = Some 300"
    unfolding Let_def
    by (auto simp add: ch paged_page tp paged_numbers)
  from r k h1 h2 h3 h6 show ?thesis
    by (simp add: paged_numbers)
qed

section \<open>Cache invalidation\<close>

text \<open>
  A page is cached under \<^verbatim>\<open>chat_history:<user>:<page>:<limit>\<close> only when the limit
  reads as a number, and then the key ends in a digit; the key deleted after a save is
  \<^verbatim>\<open>chat_history:<user>:*\<close>, which ends in an asterisk. The deletion names that one
  key, so no cached page of any user is ever removed by a submission, and a page cached
  before the submission is still served.
\<close>

lemma show_nat_nonempty: "show_nat n \<noteq> []"
  by (subst show_nat.simps) simp

lemma show_nat_last: "last (show_nat n) = digit_char (n mod 10)"
  by (subst show_nat.simps) simp

lemma digit_not_star: "is_digit c \<Longrightarrow> c \<noteq> CHR ''*''"
  by (auto simp add: is_digit_def)

lemma numeral_text_ends_in_digit:
  "number_of d q = Some n \<Longrightarrow> text_of d q \<noteq> [] \<and> is_digit (last (text_of d q))"
proof (cases q)
  case None
  have "n mod 10 < 10" for n :: nat by simp
  with None show ?thesis
    by (simp add: text_of_def show_nat_nonempty show_nat_last is_digit_digit_char)
next
  case (Some s)
  assume "number_of d q = Some n"
  with Some have "s \<noteq> []" and "list_all is_digit s"
    by (simp_all add: number_of_def digits_value_def split: if_splits)
  then have "is_digit (last s)"
    by (simp add: list_all_iff)
  with Some \<open>s \<noteq> []\<close> show ?thesis
    by (simp add: text_of_def)
qed

lemma page_key_not_invalidation_key:
  "number_of d limit_q = Some n \<Longrightarrow> cacheKey v page (text_of d limit_q) \<noteq> invalidation_key u"
proof
  assume n: "number_of d limit_q = Some n"
    and "cacheKey v page (text_of d limit_q) = invalidation_key u"
  then have "last (cacheKey v page (text_of d limit_q)) = last (invalidation_key u)" by simp
  with numeral_text_ends_in_digit [OF n] have "last (text_of d limit_q) = CHR ''*''"
    by (simp add: cacheKey_def invalidation_key_def)
  with numeral_text_ends_in_digit [OF n] digit_not_star show False by blast
qed

lemma on_event_keeps_pages:
  "k \<noteq> invalidation_key u \<Longrightarrow> redis (world (on_event ev u m s e)) k = redis (world s) k"
  by (cases e)
     (simp_all add: on_data_fragments forward_def on_end_def on_error_def deleteCache_def Let_def
        split: option.splits)

lemma relay_keeps_pages:
  "k \<noteq> invalidation_key u \<Longrightarrow>
     redis (world (foldl (on_event ev u m) s events)) k = redis (world s) k"
  by (induction events arbitrary: s) (simp_all add: on_event_keeps_pages)

lemma chat_handler_keeps_pages:
  "k \<noteq> invalidation_key u \<Longrightarrow> redis (final (chat_handler ev st u m)) k = redis st k"
  by (simp add: chat_handler_def relayed_def handleStreamResponse_def relay_keeps_pages Let_def
      split: option.splits sum.splits)

lemma chat_route_keeps_pages:
  "number_of d limit_q = Some n \<Longrightarrow>
     redis (final (chat_route cfg ev st req)) (cacheKey v page (text_of d limit_q)) =
       redis st (cacheKey v page (text_of d limit_q))"
  by (simp add: chat_route_def chat_handler_keeps_pages page_key_not_invalidation_key Let_def
      split: prod.splits option.splits)

lemma cached_page_still_served:
  "number_of default_limit limit_q = Some n \<Longrightarrow>
   getCache (redis_down ev) (redis st) (cacheKey u (text_of default_page page_q) (text_of default_limit limit_q)) = Some d \<Longrightarrow>
   truthy d \<Longrightarrow>
     map_option snd (getHistory ev (final (chat_route cfg ev st req)) u page_q limit_q) =
       Some \<lparr> status = 200, body = d \<rparr>"
proof -
  assume n: "number_of default_limit limit_q = Some n"
    and a: "getCache (redis_down ev) (redis st) (cacheKey u (text_of default_page page_q) (text_of default_limit limit_q)) = Some d"
    and t: "truthy d"
  have "getCache (redis_down ev) (redis (final (chat_route cfg ev st req)))
          (cacheKey u (text_of default_page page_q) (text_of default_limit limit_q)) =
        getCache (redis_down ev) (redis st) (cacheKey u (text_of default_page page_q) (text_of default_limit limit_q))"
    by (simp add: getCache_def chat_route_keeps_pages [OF n])
  with a t show ?thesis
    by (simp add: getHistory_def)
qed

lemma demo_texts: "text_of default_page None = ''1''" "text_of default_limit None = ''20''"
  by (simp_all add: text_of_def show_nat.simps digit_char_def default_page_def default_limit_def)

lemma demo_key: "cacheKey ''u1'' (text_of default_page None) (text_of default_limit None) = ''chat_history:u1:1:20''"
  by (simp add: cacheKey_def demo_texts)

lemma demo_page:
  "history_json (query_page (chats demo_state) ''u1'' default_page default_limit (json_of default_page None)) =
     JObj [(''chats'',
            JArr [JObj [(''user_id'', JStr ''u1''), (''message'', JStr ''Hey''),
                        (''response'', JStr ''Hello!''), (''timestamp'', JNum 1000)]]),
           (''totalPages'', JNum 1),
           (''currentPage'', JNum 1)]"
  by (simp add: history_json_def query_page_def skip_limit_def sort_newest_first_def find_user_def
      demo_state_def total_pages_def countDocuments_def ceil_div_def chat_json_def json_of_def
      default_page_def default_limit_def)

lemma demo_env_simps:
  "find_error demo_env = None" "save_error demo_env = None" "redis_down demo_env = False"
  "Date_now demo_env = 2000" "JSON_parse demo_env = demo_parse"
  "axios_post demo_env HUGGINGFACE_API_URL b opts = Inr (map Data demo_chunks @ [End])"
  by (simp_all add: demo_env_def)

lemma first_read:
  "getHistory demo_env demo_state ''u1'' None None =
     Some (demo_state\<lparr> redis := [''chat_history:u1:1:20'' \<mapsto>
             \<lparr> stored = history_json (query_page (chats demo_state) ''u1'' default_page default_limit (json_of default_page None)),
               expiry = 300 \<rparr>] \<rparr>,
           \<lparr> status = 200,
             body = history_json (query_page (chats demo_state) ''u1'' default_page default_limit (json_of default_page None)) \<rparr>)"
proof -
  have "getCache (redis_down demo_env) (redis demo_state)
      (cacheKey ''u1'' (text_of default_page None) (text_of default_limit None)) = None"
    by (simp add: getCache_def demo_state_def demo_env_simps)
  then have "getHistory demo_env demo_state ''u1'' None None = history_miss demo_env demo_state ''u1'' None None"
    by (rule getHistory_miss)
  also have "\<dots> = Some (demo_state\<lparr> redis := setCache (redis_down demo_env) (redis demo_state)
                        (cacheKey ''u1'' (text_of default_page None) (text_of default_limit None))
                        (history_json (query_page (chats demo_state) ''u1'' default_page default_limit (json_of default_page None)))
                        (Some 300) \<rparr>,
             \<lparr> status = 200,
               body = history_json (query_page (chats demo_state) ''u1'' default_page default_limit (json_of default_page None)) \<rparr>)"
    by (rule history_miss_ok) (simp_all add: demo_env_simps number_of_def default_page_def)
  finally show ?thesis
    by (simp add: demo_key setCache_def demo_env_simps) (simp add: demo_state_def)
qed

lemma cached_state_eq:
  "cached_state =
     demo_state\<lparr> redis := [''chat_history:u1:1:20'' \<mapsto>
        \<lparr> stored = history_json (query_page (chats demo_state) ''u1'' default_page default_limit (json_of default_page None)),
          expiry = 300 \<rparr>] \<rparr>"
  by (simp add: cached_state_def first_read)

lemma demo_forwarded: "forwarded demo_env demo_chunks = [JStr ''Hi'', JStr '' there'']"
  by (simp add: forwarded_def fragments_def line_fragment_def demo_chunks_def map_filter_simps
      startsWith_def demo_env_simps demo_parse_def payload_def quoted_def)

lemma submitted_eq:
  "submitted =
     relayed demo_env (map Data demo_chunks @ [End]) ''u1'' ''Hello''
       (cached_state\<lparr> rateLimitCache := [''u1'' \<mapsto> \<lparr> count = 1, timestamp = 2000 \<rparr>] \<rparr>)
       [(HUGGINGFACE_API_URL,
         primary_request (build_prompt (recent_history (chats cached_state) ''u1'') ''Hello''),
         request_options demo_env)]"
proof -
  have r: "rateLimit default_config 2000 ''u1'' (rateLimitCache cached_state) =
      ([''u1'' \<mapsto> \<lparr> count = 1, timestamp = 2000 \<rparr>], None)"
    by (simp add: rateLimit_def purge_def cached_state_eq demo_state_def)
  show ?thesis
    by (simp add: submitted_def chat_route_valid trim_Hello r demo_env_simps chat_handler_def Let_def)
qed

text \<open>
  C1. The user reads the first page of the history, which caches it, then submits a
  message: the stream ends, the sentinel is sent and the turn is saved. The next read
  of the first page is answered from the cache with the page as it was before the
  submission, without the new turn.
\<close>

theorem cached_page_survives_submission:
  "sent submitted =
     [Write_data (delta (JStr ''Hi'')), Write_data (delta (JStr '' there'')), Write_done, Res_end] \<and>
   chats (final submitted) =
     [\<lparr> user_id = ''u1'', message = ''Hey'', response = ''Hello!'', chat_timestamp = 1000 \<rparr>,
      \<lparr> user_id = ''u1'', message = ''Hello'', response = ''Hi there'', chat_timestamp = 2000 \<rparr>] \<and>
   map_option snd (getHistory demo_env (final submitted) ''u1'' None None) =
     Some \<lparr> status = 200,
            body = JObj [(''chats'',
                          JArr [JObj [(''user_id'', JStr ''u1''), (''message'', JStr ''Hey''),
                                      (''response'', JStr ''Hello!''), (''timestamp'', JNum 1000)]]),
                         (''totalPages'', JNum 1),
                         (''currentPage'', JNum 1)] \<rparr>"
proof -
  have s: "sent submitted =
     [Write_data (delta (JStr ''Hi'')), Write_data (delta (JStr '' there'')), Write_done, Res_end]"
    by (simp add: submitted_eq relayed_def relay_to_end on_end_def forward_def demo_forwarded
        demo_env_simps Let_def)
  have c: "chats (final submitted) =
     [\<lparr> user_id = ''u1'', message = ''Hey'', response = ''Hello!'', chat_timestamp = 1000 \<rparr>,
      \<lparr> user_id = ''u1'', message = ''Hello'', response = ''Hi there'', chat_timestamp = 2000 \<rparr>]"
    by (simp add: submitted_eq relayed_def relay_to_end on_end_def forward_def demo_forwarded
        demo_env_simps Let_def new_chat_def cached_state_eq demo_state_def)
  have n: "number_of default_limit None = Some default_limit"
    by (simp add: number_of_def)
  have g: "getCache (redis_down demo_env) (redis cached_state)
        (cacheKey ''u1'' (text_of default_page None) (text_of default_limit None)) =
      Some (history_json (query_page (chats demo_state) ''u1'' default_page default_limit (json_of default_page None)))"
    by (simp add: getCache_def demo_env_simps cached_state_eq demo_key)
  have t: "truthy (history_json (query_page (chats demo_state) ''u1'' default_page default_limit (json_of default_page None)))"
    by (simp add: history_json_def)
  have h: "map_option snd (getHistory demo_env (final submitted) ''u1'' None None) =
     Some \<lparr> status = 200,
            body = history_json (query_page (chats demo_state) ''u1'' default_page default_limit (json_of default_page None)) \<rparr>"
    unfolding submitted_def by (rule cached_page_still_served [OF n g t])
  from s c h show ?thesis
    by (simp add: demo_page)
qed

end
